theory Spec2Isabelle
  imports Complex_Main
begin

section \<open>JavaScript values used by the staking dashboard\<close>

text \<open>
  A value thrown by an awaited call: an \<open>Error\<close> instance with its message, or any other
  value. The handlers test \<open>error instanceof Error\<close> to choose the toast text.
\<close>

datatype thrown = Error string | NonError

fun message_or :: "thrown \<Rightarrow> string \<Rightarrow> string" where
  "message_or (Error m) d = m"
| "message_or NonError d = d"

text \<open>
  A JavaScript number as \<open>parseFloat\<close> returns it. Finite doubles are written as the
  rational they denote. The rounding of a double operation is the parameter \<open>rnd\<close> of the
  functions below: \<open>rnd x\<close> is the double nearest to the exact result \<open>x\<close>.
\<close>

datatype number = NaN | Num rat | PosInfinity | NegInfinity

text \<open>\<open>!x\<close> on a number: true for \<open>NaN\<close> and zero.\<close>

fun falsy_number :: "number \<Rightarrow> bool" where
  "falsy_number NaN = True"
| "falsy_number (Num r) = (r = 0)"
| "falsy_number PosInfinity = False"
| "falsy_number NegInfinity = False"

text \<open>\<open>x <= c\<close> and \<open>x > c\<close> against a finite constant; every comparison with \<open>NaN\<close> is false.\<close>

fun number_le :: "number \<Rightarrow> rat \<Rightarrow> bool" where
  "number_le NaN c = False"
| "number_le (Num r) c = (r \<le> c)"
| "number_le PosInfinity c = False"
| "number_le NegInfinity c = True"

fun number_gt :: "number \<Rightarrow> rat \<Rightarrow> bool" where
  "number_gt NaN c = False"
| "number_gt (Num r) c = (c < r)"
| "number_gt PosInfinity c = True"
| "number_gt NegInfinity c = False"

text \<open>\<open>x * c\<close> for a positive finite constant \<open>c\<close> (finite range; overflow is not modelled).\<close>

fun number_times :: "(rat \<Rightarrow> rat) \<Rightarrow> number \<Rightarrow> rat \<Rightarrow> number" where
  "number_times rnd NaN c = NaN"
| "number_times rnd (Num r) c = Num (rnd (r * c))"
| "number_times rnd PosInfinity c = PosInfinity"
| "number_times rnd NegInfinity c = NegInfinity"

text \<open>
  \<open>Number(x) / 1_000_000\<close> for a raw on-chain amount \<open>x\<close> (a non-negative integer):
  the conversion to a double, then the double division.
\<close>

definition Number :: "(rat \<Rightarrow> rat) \<Rightarrow> nat \<Rightarrow> rat" where
  "Number rnd x = rnd (of_nat x)"

definition toUi :: "(rat \<Rightarrow> rat) \<Rightarrow> nat \<Rightarrow> rat" where
  "toUi rnd x = rnd (Number rnd x / 1000000)"

section \<open>Accounts, the RPC connection and the vault program\<close>

datatype PublicKey = Address string | ProgramAddress "string list"

definition ZC_TOKEN_MINT :: PublicKey where
  "ZC_TOKEN_MINT = Address ''GVvPZpC6ymCoiHzYJ7CWZ8LhVn9tL2AUpRjSAsLh6jZC''"

text \<open>The program-derived addresses, \<open>PublicKey.findProgramAddressSync(seeds, PROGRAM_ID)\<close>.\<close>

definition vaultState :: PublicKey where
  "vaultState = ProgramAddress [''vault_state'']"

definition vaultTokenAccount :: PublicKey where
  "vaultTokenAccount = ProgramAddress [''token_vault'', ''GVvPZpC6ymCoiHzYJ7CWZ8LhVn9tL2AUpRjSAsLh6jZC'']"

definition shareMint :: PublicKey where
  "shareMint = ProgramAddress [''share_mint'']"

definition tokenAccountOwnerPda :: PublicKey where
  "tokenAccountOwnerPda = ProgramAddress [''token_account_owner_pda'']"

datatype instruction =
    CreateAssociatedTokenAccount PublicKey PublicKey PublicKey PublicKey
  | DepositIx int
  | RedeemIx int

text \<open>
  Everything the component awaits from outside: the RPC connection, the SPL-token helpers,
  the Anchor vault program and the wallet provider. Each call returns its value (\<open>Inr\<close>) or
  throws (\<open>Inl\<close>). Amounts are raw unsigned token amounts. \<open>instruction\<close> is the building of
  a program instruction (\<open>program.methods. ... .instruction()\<close>): it throws or gives the
  instruction asked for.
\<close>

record rpc =
  getAccountInfo :: "PublicKey \<Rightarrow> thrown + nat list option"
  decode_operationsEnabled :: "nat list \<Rightarrow> thrown + bool"
  totalAssets :: "thrown + nat"
  previewRedeem :: "nat \<Rightarrow> thrown + nat"
  getAssociatedTokenAddress :: "PublicKey \<Rightarrow> PublicKey \<Rightarrow> thrown + PublicKey"
  getAccount :: "PublicKey \<Rightarrow> thrown + nat"
  newBN :: "number \<Rightarrow> thrown + int"
  instruction :: "instruction \<Rightarrow> thrown + unit"
  getLatestBlockhash :: "thrown + string"
  signAndSendTransaction :: "instruction list \<Rightarrow> thrown + string"
  confirmTransaction :: "string \<Rightarrow> thrown + unit"

section \<open>Component state and effects\<close>

datatype modal_mode = deposit | redeem

record ui_state =
  loading :: bool
  modalMode :: modal_mode
  amount :: string
  redeemPercent :: string
  zcBalance :: rat
  vaultBalance :: rat
  userShareBalance :: rat
  userShareValue :: rat
  exchangeRate :: rat
  zcTotalSupply :: rat
  refreshing :: bool
  postTransactionRefreshing :: bool
  withdrawalsEnabled :: bool
  copiedWallet :: bool

text \<open>The initial values of the \<open>useState\<close> hooks.\<close>

definition initial_state :: ui_state where
  "initial_state = \<lparr> loading = False, modalMode = deposit, amount = [], redeemPercent = [],
     zcBalance = 0, vaultBalance = 0, userShareBalance = 0, userShareValue = 0,
     exchangeRate = 0, zcTotalSupply = 0, refreshing = False,
     postTransactionRefreshing = False, withdrawalsEnabled = True, copiedWallet = False \<rparr>"

datatype toast = success | error

text \<open>The text of a toast: a fixed string, or one of the two templates around a number.\<close>

datatype toast_message = Text string | Staked number | Redeemed number

text \<open>
  What an effect hook or a timer callback does, in order: a call of one of the component's
  two refresh routines (\<open>FetchVaultData retryCount maxRetries\<close>), or the state update that
  ends the refresh after a transaction.
\<close>

datatype action = FetchVaultData nat nat | FetchZcBalance | SetPostTransactionRefreshing bool

text \<open>
  What the component does to the outside, in order: console output, toasts, timers
  (\<open>SetTimeout callback ms\<close>) and transactions handed to the wallet to sign and send.
\<close>

datatype effect =
    ConsoleLog string
  | ConsoleError string thrown
  | ShowToast toast toast_message
  | SetTimeout "action list" nat
  | SignAndSend "instruction list"

type_synonym world = "ui_state \<times> effect list"

definition emit :: "effect \<Rightarrow> world \<Rightarrow> world" where
  "emit e w = (fst w, snd w @ [e])"

definition upd :: "(ui_state \<Rightarrow> ui_state) \<Rightarrow> world \<Rightarrow> world" where
  "upd f w = (f (fst w), snd w)"

section \<open>fetchVaultData\<close>

text \<open>The vault-state block: the flag is the decoded \<open>operationsEnabled\<close>, or false when the
  account is missing or any read or decode throws. (The \<open>data\<close> of an account that exists
  is a buffer, which is truthy even when empty.)\<close>

definition fetch_vaultState :: "rpc \<Rightarrow> world \<Rightarrow> world" where
  "fetch_vaultState c w =
    (case getAccountInfo c vaultState of
       Inl e \<Rightarrow> upd (\<lambda>s. s\<lparr>withdrawalsEnabled := False\<rparr>)
                  (emit (ConsoleError ''Failed to fetch vault state:'' e) w)
     | Inr None \<Rightarrow> upd (\<lambda>s. s\<lparr>withdrawalsEnabled := False\<rparr>) w
     | Inr (Some data) \<Rightarrow>
         (case decode_operationsEnabled c data of
            Inl e \<Rightarrow> upd (\<lambda>s. s\<lparr>withdrawalsEnabled := False\<rparr>)
                       (emit (ConsoleError ''Failed to fetch vault state:'' e) w)
          | Inr operationsEnabled \<Rightarrow> upd (\<lambda>s. s\<lparr>withdrawalsEnabled := operationsEnabled\<rparr>) w))"

definition fetch_totalAssets :: "(rat \<Rightarrow> rat) \<Rightarrow> rpc \<Rightarrow> world \<Rightarrow> world" where
  "fetch_totalAssets rnd c w =
    (case totalAssets c of
       Inr assets \<Rightarrow> upd (\<lambda>s. s\<lparr>vaultBalance := toUi rnd assets\<rparr>) w
     | Inl e \<Rightarrow> upd (\<lambda>s. s\<lparr>vaultBalance := 0\<rparr>)
                  (emit (ConsoleError ''Failed to fetch vault metrics:'' e) w))"

definition fetch_exchangeRate :: "(rat \<Rightarrow> rat) \<Rightarrow> rpc \<Rightarrow> world \<Rightarrow> world" where
  "fetch_exchangeRate rnd c w =
    (case previewRedeem c 1000000 of
       Inr assetsForOneShare \<Rightarrow> upd (\<lambda>s. s\<lparr>exchangeRate := toUi rnd assetsForOneShare\<rparr>) w
     | Inl e \<Rightarrow> upd (\<lambda>s. s\<lparr>exchangeRate := 1\<rparr>)
                  (emit (ConsoleError ''Failed to fetch exchange rate:'' e) w))"

text \<open>
  The body of the last \<open>try\<close>: the user's share account is read, the balance is stored, and for
  a positive balance the whole raw amount is passed to \<open>previewRedeem\<close>. The result says
  whether the body threw, and the world holds the updates made before it did.
\<close>

definition fetch_userShare :: "(rat \<Rightarrow> rat) \<Rightarrow> rpc \<Rightarrow> PublicKey \<Rightarrow> world \<Rightarrow> (thrown + unit) \<times> world" where
  "fetch_userShare rnd c wallet w =
    (case getAssociatedTokenAddress c shareMint wallet of
       Inl e \<Rightarrow> (Inl e, w)
     | Inr userShareAccount \<Rightarrow>
         (case getAccount c userShareAccount of
            Inl e \<Rightarrow> (Inl e, w)
          | Inr amt \<Rightarrow>
              (let shareBalance = toUi rnd amt;
                   w1 = upd (\<lambda>s. s\<lparr>userShareBalance := shareBalance\<rparr>) w
               in if shareBalance > 0
                  then (case previewRedeem c amt of
                          Inl e \<Rightarrow> (Inl e, w1)
                        | Inr assets \<Rightarrow> (Inr (), upd (\<lambda>s. s\<lparr>userShareValue := toUi rnd assets\<rparr>) w1))
                  else (Inr (), upd (\<lambda>s. s\<lparr>userShareValue := 0\<rparr>) w1))))"

text \<open>
  One invocation of \<open>fetchVaultData(retryCount, maxRetries)\<close>, from the state \<open>s\<close>: the new
  state and the effects in order. \<open>program\<close> says whether the Anchor program object exists,
  \<open>wallet\<close> is the connected wallet or \<open>None\<close>. The \<open>finally\<close> clause clears \<open>refreshing\<close> on
  every path. Nothing outside the four inner \<open>try\<close> blocks throws in this model, so the outer
  \<open>catch\<close> has no branch.
\<close>

definition fetchVaultData ::
  "(rat \<Rightarrow> rat) \<Rightarrow> rpc \<Rightarrow> bool \<Rightarrow> PublicKey option \<Rightarrow> nat \<Rightarrow> nat \<Rightarrow> ui_state \<Rightarrow> world" where
  "fetchVaultData rnd c program wallet retryCount maxRetries s =
    upd (\<lambda>s. s\<lparr>refreshing := False\<rparr>)
      (let w0 = (s\<lparr>refreshing := True\<rparr>, []) in
       case wallet of
         None \<Rightarrow> emit (ConsoleLog ''No program or wallet available'') w0
       | Some wlt \<Rightarrow>
           if \<not> program then emit (ConsoleLog ''No program or wallet available'') w0
           else
             (let w1 = fetch_vaultState c w0;
                  w2 = fetch_totalAssets rnd c w1;
                  w3 = fetch_exchangeRate rnd c w2
              in case fetch_userShare rnd c wlt w3 of
                   (Inr u, w4) \<Rightarrow> w4
                 | (Inl e, w4) \<Rightarrow>
                     (let w5 = emit (ConsoleLog ''User share account not found'') w4
                      in if retryCount < maxRetries
                         then emit (SetTimeout [FetchVaultData (retryCount + 1) maxRetries]
                                      (2 ^ retryCount * 1000)) w5
                         else upd (\<lambda>s. s\<lparr>userShareValue := 0\<rparr>)
                                (upd (\<lambda>s. s\<lparr>userShareBalance := 0\<rparr>) w5))))"

text \<open>The retry timer an invocation has set, if any: the call it schedules.\<close>

fun scheduled_retry :: "effect list \<Rightarrow> (nat \<times> nat) option" where
  "scheduled_retry [] = None"
| "scheduled_retry (SetTimeout [FetchVaultData r m] d # fx) = Some (r, m)"
| "scheduled_retry (e # fx) = scheduled_retry fx"

text \<open>An invocation sets a retry timer only below \<open>maxRetries\<close>, and for
  \<open>retryCount + 1\<close>; the chain of retries below ends for that reason.\<close>

lemma scheduled_retry_append:
  "scheduled_retry (fx @ gx) =
     (case scheduled_retry fx of None \<Rightarrow> scheduled_retry gx | Some x \<Rightarrow> Some x)"
  by (induction fx rule: scheduled_retry.induct) simp_all

lemma scheduled_retry_fetch_vaultState:
  "scheduled_retry (snd (fetch_vaultState c w)) = scheduled_retry (snd w)"
  by (simp add: fetch_vaultState_def upd_def emit_def scheduled_retry_append
      split: sum.splits option.splits)

lemma scheduled_retry_fetch_totalAssets:
  "scheduled_retry (snd (fetch_totalAssets rnd c w)) = scheduled_retry (snd w)"
  by (simp add: fetch_totalAssets_def upd_def emit_def scheduled_retry_append
      split: sum.splits option.splits)

lemma scheduled_retry_fetch_exchangeRate:
  "scheduled_retry (snd (fetch_exchangeRate rnd c w)) = scheduled_retry (snd w)"
  by (simp add: fetch_exchangeRate_def upd_def emit_def scheduled_retry_append
      split: sum.splits option.splits)

lemma snd_fetch_userShare: "snd (snd (fetch_userShare rnd c wallet w)) = snd w"
  by (simp add: fetch_userShare_def upd_def Let_def split: sum.splits)

lemma scheduled_retry_fetchVaultData:
  "scheduled_retry (snd (fetchVaultData rnd c program wallet retryCount maxRetries s)) = Some next
   \<Longrightarrow> fst next = retryCount + 1 \<and> snd next = maxRetries \<and> retryCount < maxRetries"
  by (auto simp: fetchVaultData_def upd_def emit_def Let_def scheduled_retry_fetch_vaultState
      scheduled_retry_fetch_totalAssets scheduled_retry_fetch_exchangeRate snd_fetch_userShare
      scheduled_retry_append
      split: option.splits if_splits prod.splits sum.splits
      dest!: arg_cong[where f="\<lambda>x. snd (snd x)"])

text \<open>
  The chain of invocations that the retry timers produce. \<open>cs k\<close> is what the outside
  answers during the invocation with \<open>retryCount = k\<close>; the closure keeps \<open>program\<close> and
  \<open>wallet\<close>. The effects of the invocations are concatenated in order.
\<close>

function fetchVaultData_run ::
  "(rat \<Rightarrow> rat) \<Rightarrow> (nat \<Rightarrow> rpc) \<Rightarrow> bool \<Rightarrow> PublicKey option \<Rightarrow> nat \<Rightarrow> nat \<Rightarrow> ui_state \<Rightarrow> world" where
  "fetchVaultData_run rnd cs program wallet retryCount maxRetries s =
    (let w = fetchVaultData rnd (cs retryCount) program wallet retryCount maxRetries s in
     case scheduled_retry (snd w) of
       None \<Rightarrow> w
     | Some next \<Rightarrow>
         (let w' = fetchVaultData_run rnd cs program wallet (fst next) (snd next) (fst w)
          in (fst w', snd w @ snd w')))"
  by pat_completeness auto
termination
  by (relation "measure (\<lambda>(rnd, cs, program, wallet, retryCount, maxRetries, s). maxRetries + 1 - retryCount)")
     (auto dest!: scheduled_retry_fetchVaultData)

declare fetchVaultData_run.simps [simp del]

text \<open>Observers of an effect list: the delays of the timers set, and the number of times the
  share-account step was logged as failed.\<close>

fun timer_delays :: "effect list \<Rightarrow> nat list" where
  "timer_delays [] = []"
| "timer_delays (SetTimeout cb d # fx) = d # timer_delays fx"
| "timer_delays (e # fx) = timer_delays fx"

definition failed_attempts :: "effect list \<Rightarrow> nat" where
  "failed_attempts fx = count_list fx (ConsoleLog ''User share account not found'')"

text \<open>An effect list that holds console errors only: what the three blocks before the
  share-account step can add.\<close>

fun quiet :: "effect list \<Rightarrow> bool" where
  "quiet [] = True"
| "quiet (ConsoleError a b # fx) = quiet fx"
| "quiet (e # fx) = False"

text \<open>The transactions handed to the wallet, in order.\<close>

fun submissions :: "effect list \<Rightarrow> instruction list list" where
  "submissions [] = []"
| "submissions (SignAndSend tx # fx) = tx # submissions fx"
| "submissions (e # fx) = submissions fx"

text \<open>The read of the user's share account fails: deriving its address or \<open>getAccount\<close> throws.\<close>

definition userShareReadFails :: "rpc \<Rightarrow> PublicKey \<Rightarrow> bool" where
  "userShareReadFails c wallet =
    (case getAssociatedTokenAddress c shareMint wallet of
       Inl e \<Rightarrow> True
     | Inr userShareAccount \<Rightarrow> isl (getAccount c userShareAccount))"

text \<open>The effect hook on \<open>wallet\<close>: what it calls at once when the wallet value changes.\<close>

definition wallet_effect :: "PublicKey option \<Rightarrow> action list" where
  "wallet_effect wallet = (case wallet of None \<Rightarrow> [] | Some wlt \<Rightarrow> [FetchZcBalance, FetchVaultData 0 3])"

section \<open>handleDeposit and handleRedeem\<close>

text \<open>Sequencing of calls that may throw: the first throw ends the sequence.\<close>

definition await :: "thrown + 'a \<Rightarrow> ('a \<Rightarrow> (thrown + 'b) \<times> world) \<Rightarrow> world \<Rightarrow> (thrown + 'b) \<times> world" where
  "await m f w = (case m of Inl e \<Rightarrow> (Inl e, w) | Inr x \<Rightarrow> f x)"

text \<open>BigInt division truncates toward zero; \<open>BigInt(Math.floor(x))\<close> throws a RangeError
  unless \<open>x\<close> is finite.\<close>

definition BigInt_div :: "int \<Rightarrow> int \<Rightarrow> int" where
  "BigInt_div a b = sgn a * sgn b * (\<bar>a\<bar> div \<bar>b\<bar>)"

fun BigInt_floor :: "number \<Rightarrow> thrown + int" where
  "BigInt_floor (Num r) = Inr \<lfloor>r\<rfloor>"
| "BigInt_floor x = Inl (Error ''RangeError'')"

text \<open>
  \<open>(totalShares * BigInt(Math.floor(redeemPercentNum * 100))) / BigInt(10000)\<close>: the
  percentage in basis points, applied to the raw share balance.
\<close>

definition sharesToRedeem :: "(rat \<Rightarrow> rat) \<Rightarrow> nat \<Rightarrow> number \<Rightarrow> thrown + int" where
  "sharesToRedeem rnd totalShares redeemPercentNum =
    (case BigInt_floor (number_times rnd redeemPercentNum 100) of
       Inl e \<Rightarrow> Inl e
     | Inr bps \<Rightarrow> Inr (BigInt_div (int totalShares * bps) 10000))"

text \<open>The transaction starts empty; an instruction creating the associated token account is
  added when reading that account throws.\<close>

definition new_Transaction :: "rpc \<Rightarrow> PublicKey \<Rightarrow> PublicKey \<Rightarrow> PublicKey \<Rightarrow> instruction list" where
  "new_Transaction c wallet account mint =
    (case getAccount c account of
       Inr info \<Rightarrow> []
     | Inl e \<Rightarrow> [CreateAssociatedTokenAccount wallet account wallet mint])"

text \<open>The last steps of both handlers: blockhash, sign and send, confirm. The transaction
  handed to the wallet is recorded as an effect before the wallet answers.\<close>

definition submit :: "rpc \<Rightarrow> instruction list \<Rightarrow> world \<Rightarrow> (thrown + unit) \<times> world" where
  "submit c transaction w =
    await (getLatestBlockhash c) (\<lambda>blockhash.
      (let w1 = emit (SignAndSend transaction) w in
       await (signAndSendTransaction c transaction) (\<lambda>signature.
         await (confirmTransaction c signature) (\<lambda>u. (Inr (), w1)) w1) w1)) w"

definition schedule_refresh :: "world \<Rightarrow> world" where
  "schedule_refresh w =
     emit (SetTimeout [FetchVaultData 0 3, FetchZcBalance, SetPostTransactionRefreshing False] 8000)
       (upd (\<lambda>s. s\<lparr>postTransactionRefreshing := True\<rparr>) w)"

text \<open>The body of the \<open>try\<close> of \<open>handleDeposit\<close>.\<close>

definition handleDeposit_try ::
  "(rat \<Rightarrow> rat) \<Rightarrow> rpc \<Rightarrow> bool \<Rightarrow> PublicKey \<Rightarrow> number \<Rightarrow> world \<Rightarrow> (thrown + unit) \<times> world" where
  "handleDeposit_try rnd c program wallet depositAmount w0 =
    (let w1 = upd (\<lambda>s. s\<lparr>loading := True\<rparr>) w0 in
     if \<not> program then (Inl (Error ''Program not available''), w1)
     else
       await (newBN c (number_times rnd depositAmount 1000000)) (\<lambda>depositAmountBN.
       await (getAssociatedTokenAddress c ZC_TOKEN_MINT wallet) (\<lambda>senderTokenAccount.
       await (getAssociatedTokenAddress c shareMint wallet) (\<lambda>senderShareAccount.
         (let transaction = new_Transaction c wallet senderShareAccount shareMint in
          await (instruction c (DepositIx depositAmountBN)) (\<lambda>built.
            (case submit c (transaction @ [DepositIx depositAmountBN]) w1 of
               (Inl e, w2) \<Rightarrow> (Inl e, w2)
             | (Inr u, w2) \<Rightarrow>
                 (Inr (), schedule_refresh
                    (upd (\<lambda>s. s\<lparr>amount := []\<rparr>)
                      (emit (ShowToast success (Staked depositAmount)) w2))))) w1)) w1) w1) w1)"

definition handleDeposit ::
  "(rat \<Rightarrow> rat) \<Rightarrow> (string \<Rightarrow> number) \<Rightarrow> rpc \<Rightarrow> bool \<Rightarrow> bool \<Rightarrow> PublicKey option \<Rightarrow> ui_state \<Rightarrow> world" where
  "handleDeposit rnd parseFloat c program walletProvider wallet s =
    (let depositAmount = parseFloat (amount s) in
     if falsy_number depositAmount \<or> number_le depositAmount 0
     then emit (ShowToast error (Text ''Please enter a valid deposit amount'')) (s, [])
     else case wallet of
       None \<Rightarrow> emit (ShowToast error (Text ''Please connect your wallet first'')) (s, [])
     | Some wlt \<Rightarrow>
         if \<not> walletProvider
         then emit (ShowToast error (Text ''Please connect your wallet first'')) (s, [])
         else upd (\<lambda>s. s\<lparr>loading := False\<rparr>)
           (case handleDeposit_try rnd c program wlt depositAmount (s, []) of
              (Inr u, w) \<Rightarrow> w
            | (Inl e, w) \<Rightarrow>
                emit (ShowToast error (Text (message_or e ''Failed to deposit tokens'')))
                  (emit (ConsoleError ''Deposit failed:'' e) w)))"

text \<open>The body of the \<open>try\<close> of \<open>handleRedeem\<close>.\<close>

definition handleRedeem_try ::
  "(rat \<Rightarrow> rat) \<Rightarrow> rpc \<Rightarrow> bool \<Rightarrow> PublicKey \<Rightarrow> number \<Rightarrow> world \<Rightarrow> (thrown + unit) \<times> world" where
  "handleRedeem_try rnd c program wallet redeemPercentNum w0 =
    (let w1 = upd (\<lambda>s. s\<lparr>loading := True\<rparr>) w0 in
     if \<not> program then (Inl (Error ''Program not available''), w1)
     else
       await (getAssociatedTokenAddress c shareMint wallet) (\<lambda>userShareAccount.
       await (getAccount c userShareAccount) (\<lambda>totalShares.
       await (sharesToRedeem rnd totalShares redeemPercentNum) (\<lambda>shares.
       await (getAssociatedTokenAddress c ZC_TOKEN_MINT wallet) (\<lambda>senderTokenAccount.
         (let transaction = new_Transaction c wallet senderTokenAccount ZC_TOKEN_MINT in
          await (instruction c (RedeemIx shares)) (\<lambda>built.
            (case submit c (transaction @ [RedeemIx shares]) w1 of
               (Inl e, w2) \<Rightarrow> (Inl e, w2)
             | (Inr u, w2) \<Rightarrow>
                 (Inr (), schedule_refresh
                    (upd (\<lambda>s. s\<lparr>redeemPercent := []\<rparr>)
                      (emit (ShowToast success (Redeemed redeemPercentNum)) w2))))) w1)) w1) w1) w1) w1)"

text \<open>The guard of \<open>handleRedeem\<close> lets a percentage through when
  \<open>!x || x <= 0 || x > 100\<close> is false.\<close>

definition valid_percentage :: "number \<Rightarrow> bool" where
  "valid_percentage redeemPercentNum =
     (\<not> (falsy_number redeemPercentNum \<or> number_le redeemPercentNum 0 \<or> number_gt redeemPercentNum 100))"

definition handleRedeem ::
  "(rat \<Rightarrow> rat) \<Rightarrow> (string \<Rightarrow> number) \<Rightarrow> rpc \<Rightarrow> bool \<Rightarrow> bool \<Rightarrow> PublicKey option \<Rightarrow> ui_state \<Rightarrow> world" where
  "handleRedeem rnd parseFloat c program walletProvider wallet s =
    (let redeemPercentNum = parseFloat (redeemPercent s) in
     if \<not> valid_percentage redeemPercentNum
     then emit (ShowToast error (Text ''Please enter a valid percentage between 0 and 100'')) (s, [])
     else case wallet of
       None \<Rightarrow> emit (ShowToast error (Text ''Please connect your wallet first'')) (s, [])
     | Some wlt \<Rightarrow>
         if \<not> walletProvider
         then emit (ShowToast error (Text ''Please connect your wallet first'')) (s, [])
         else upd (\<lambda>s. s\<lparr>loading := False\<rparr>)
           (case handleRedeem_try rnd c program wlt redeemPercentNum (s, []) of
              (Inr u, w) \<Rightarrow> w
            | (Inl e, w) \<Rightarrow>
                emit (ShowToast error (Text (message_or e ''Failed to redeem shares'')))
                  (emit (ConsoleError ''Redemption failed:'' e) w)))"

section \<open>The redeem input and the action button\<close>

text \<open>The test \<open>/^\d*\.?\d*$/\<close>: digits, at most one dot, digits.\<close>

definition digit :: "char \<Rightarrow> bool" where
  "digit ch = (ch \<in> set ''0123456789'')"

definition decimal_text :: "string \<Rightarrow> bool" where
  "decimal_text v =
    (case dropWhile digit v of
       [] \<Rightarrow> True
     | ch # rest \<Rightarrow> ch = CHR ''.'' \<and> list_all digit rest)"

text \<open>\<open>onChange\<close> of the percentage input: the typed text is stored as it is, or not at all.\<close>

definition redeemPercent_onChange :: "(string \<Rightarrow> number) \<Rightarrow> string \<Rightarrow> ui_state \<Rightarrow> ui_state" where
  "redeemPercent_onChange parseFloat v s =
    (if v = [] \<or> (decimal_text v \<and> number_le (parseFloat v) 100)
     then s\<lparr>redeemPercent := v\<rparr> else s)"

definition redeemPercent_disabled :: "PublicKey option \<Rightarrow> ui_state \<Rightarrow> bool" where
  "redeemPercent_disabled wallet s = (\<not> withdrawalsEnabled s \<or> wallet = None)"

datatype handler = HandleDeposit | HandleRedeem | ConnectWallet

text \<open>The button under the form: what a click calls, and its \<open>disabled\<close> attribute. Without a
  wallet the button connects one; with a wallet it is the stake or redeem button.\<close>

definition button_onClick :: "PublicKey option \<Rightarrow> ui_state \<Rightarrow> handler" where
  "button_onClick wallet s =
    (case wallet of
       None \<Rightarrow> ConnectWallet
     | Some wlt \<Rightarrow> if modalMode s = deposit then HandleDeposit else HandleRedeem)"

definition button_disabled :: "(string \<Rightarrow> number) \<Rightarrow> PublicKey option \<Rightarrow> ui_state \<Rightarrow> bool" where
  "button_disabled parseFloat wallet s =
    (case wallet of
       None \<Rightarrow> loading s
     | Some wlt \<Rightarrow>
         loading s \<or>
         (if modalMode s = deposit
          then amount s = [] \<or> number_le (parseFloat (amount s)) 0
          else redeemPercent s = [] \<or> number_le (parseFloat (redeemPercent s)) 0
               \<or> \<not> withdrawalsEnabled s \<or> userShareBalance s = 0))"

text \<open>A click reaches the handler only when the button is not disabled.\<close>

definition click :: "(string \<Rightarrow> number) \<Rightarrow> PublicKey option \<Rightarrow> ui_state \<Rightarrow> handler option" where
  "click parseFloat wallet s =
    (if button_disabled parseFloat wallet s then None else Some (button_onClick wallet s))"

section \<open>The market-data route\<close>

text \<open>
  JSON values as \<open>request.json()\<close> and \<open>response.json()\<close> return them. An object is its list
  of members in order; a repeated key reads as its last member. A JavaScript value that may
  be \<open>undefined\<close> is a \<open>json option\<close>.
\<close>

datatype json =
    JNull
  | JBool bool
  | JNumber rat
  | JString string
  | JArray "json list"
  | JObject "(string \<times> json) list"

fun truthy :: "json option \<Rightarrow> bool" where
  "truthy None = False"
| "truthy (Some JNull) = False"
| "truthy (Some (JBool b)) = b"
| "truthy (Some (JNumber n)) = (n \<noteq> 0)"
| "truthy (Some (JString t)) = (t \<noteq> [])"
| "truthy (Some (JArray xs)) = True"
| "truthy (Some (JObject ms)) = True"

text \<open>
  Reading a property \<open>v.name\<close>, for the names the route reads (none of them is a property of
  a string, an array or a prototype): on \<open>null\<close> it throws a TypeError, on an object it gives
  the member or \<open>undefined\<close>, on any other value \<open>undefined\<close>.
\<close>

fun property :: "json \<Rightarrow> string \<Rightarrow> thrown + json option" where
  "property JNull name = Inl (Error ''TypeError'')"
| "property (JObject ms) name = Inr (map_of (rev ms) name)"
| "property v name = Inr None"

text \<open>A JSON value lacks a member: an object without that key, or a value that is no object.\<close>

fun lacks :: "json \<Rightarrow> string \<Rightarrow> bool" where
  "lacks (JObject ms) name = (name \<notin> fst ` set ms)"
| "lacks v name = True"

text \<open>\<open>a || b\<close>.\<close>

definition js_or :: "json option \<Rightarrow> json option \<Rightarrow> json option" where
  "js_or a b = (if truthy a then a else b)"

text \<open>An object literal in the response: a member whose value is \<open>undefined\<close> is left out when
  the body is serialised.\<close>

fun members :: "(string \<times> json option) list \<Rightarrow> (string \<times> json) list" where
  "members [] = []"
| "members ((k, None) # ms) = members ms"
| "members ((k, Some v) # ms) = (k, v) # members ms"

record upstream_response =
  status :: nat
  json_of :: "thrown + json"

text \<open>\<open>response.ok\<close>: the status is in the range 200 to 299.\<close>

definition ok :: "upstream_response \<Rightarrow> bool" where
  "ok response = (200 \<le> status response \<and> status response \<le> 299)"

text \<open>
  What the route awaits from outside: the request's body, the switch and the data of the
  mock (both in \<open>@/lib/mock\<close>), and the Birdeye API reached by \<open>fetch\<close>, which gets the token
  address inside the URL.
\<close>

record route_env =
  request_json :: "thrown + json"
  shouldUseMockBirdeye :: bool
  getTokenMarketData :: "json option \<Rightarrow> thrown + json"
  fetch :: "json option \<Rightarrow> thrown + upstream_response"

text \<open>
  \<open>NextResponse.json(body, { status })\<close>; the status is 200 when none is given. The response
  is built by the \<open>Response\<close> constructor of the Fetch standard, which throws a RangeError
  for a status outside 200 to 599 and a TypeError for a body together with a null-body
  status (204, 205 and 304 in that range).
\<close>

record http_response =
  res_status :: nat
  res_body :: json

definition NextResponse_json :: "json \<Rightarrow> nat \<Rightarrow> thrown + http_response" where
  "NextResponse_json body st =
    (if st < 200 \<or> 599 < st then Inl (Error ''RangeError'')
     else if st = 204 \<or> st = 205 \<or> st = 304 then Inl (Error ''TypeError'')
     else Inr \<lparr> res_status = st, res_body = body \<rparr>)"

definition failure :: "string \<Rightarrow> json" where
  "failure msg = JObject [(''success'', JBool False), (''data'', JNull), (''error'', JString msg)]"

definition andThen :: "thrown + 'a \<Rightarrow> ('a \<Rightarrow> thrown + 'b) \<Rightarrow> thrown + 'b" where
  "andThen m f = (case m of Inl e \<Rightarrow> Inl e | Inr x \<Rightarrow> f x)"

text \<open>The normalised body of a success: each number falls back to 0 when the member is
  missing or falsy; the 24h change has no fallback.\<close>

definition normalize :: "json \<Rightarrow> thrown + json" where
  "normalize data =
    andThen (property data ''price'') (\<lambda>price.
    andThen (property data ''liquidity'') (\<lambda>liquidity.
    andThen (property data ''totalSupply'') (\<lambda>totalSupply.
    andThen (property data ''circulatingSupply'') (\<lambda>circulatingSupply.
    andThen (property data ''fdv'') (\<lambda>fdv.
    andThen (property data ''marketCap'') (\<lambda>marketCap.
    andThen (property data ''market_cap'') (\<lambda>market_cap.
    andThen (property data ''priceChange24h'') (\<lambda>priceChange24h.
    andThen (property data ''price_change_24h'') (\<lambda>price_change_24h.
      Inr (JObject
        [(''success'', JBool True),
         (''data'', JObject (members
            [(''price'', js_or price (Some (JNumber 0))),
             (''liquidity'', js_or liquidity (Some (JNumber 0))),
             (''total_supply'', js_or totalSupply (Some (JNumber 0))),
             (''circulating_supply'', js_or circulatingSupply (Some (JNumber 0))),
             (''fdv'', js_or fdv (Some (JNumber 0))),
             (''market_cap'', js_or (js_or marketCap market_cap) (Some (JNumber 0))),
             (''price_change_24h'', js_or priceChange24h price_change_24h)]))]))))))))))"

text \<open>The body of the \<open>try\<close> of \<open>POST\<close>, and the handler with its \<open>catch\<close>. Every
  \<open>NextResponse.json\<close> of the body is inside the \<open>try\<close>, so a throw of the constructor goes
  to the \<open>catch\<close> too. Console output is left out.\<close>

definition POST_try :: "route_env \<Rightarrow> thrown + http_response" where
  "POST_try env =
    andThen (request_json env) (\<lambda>body.
    andThen (property body ''tokenAddress'') (\<lambda>tokenAddress.
      if \<not> truthy tokenAddress
      then NextResponse_json (failure ''Token address is required'') 400
      else if shouldUseMockBirdeye env
      then andThen (getTokenMarketData env tokenAddress) (\<lambda>mockData.
             NextResponse_json mockData 200)
      else
        andThen (fetch env tokenAddress) (\<lambda>response.
          if \<not> ok response
          then NextResponse_json (failure ''Failed to fetch market data'') (status response)
          else
            andThen (json_of response) (\<lambda>responseData.
            andThen (property responseData ''data'') (\<lambda>d.
              (let data = (case d of None \<Rightarrow> responseData
                           | Some v \<Rightarrow> if truthy d then v else responseData) in
               andThen (normalize data) (\<lambda>normalized.
                 NextResponse_json normalized 200)))))))"

definition POST :: "route_env \<Rightarrow> thrown + http_response" where
  "POST env =
    (case POST_try env of
       Inr response \<Rightarrow> Inr response
     | Inl e \<Rightarrow> NextResponse_json (failure ''Failed to fetch market data'') 500)"

section \<open>Concrete inputs\<close>

text \<open>
  Modelled from the spec: the vault program's \<open>previewRedeem\<close> is not part of the sources;
  the specification's glossary has a share redeemable at the rate total assets / total shares,
  with integer division. \<open>pro_rata A S\<close> is that preview for a vault of \<open>A\<close> raw assets and
  \<open>S\<close> raw shares.
\<close>

definition pro_rata :: "nat \<Rightarrow> nat \<Rightarrow> nat \<Rightarrow> thrown + nat" where
  "pro_rata A S shares = Inr (shares * A div S)"

text \<open>
  A vault of 2,000,001 tokens and 2,000,000 shares, a user holding 1,000,000 shares
  (\<open>10 ^ 12\<close> raw) and a wallet that signs; every call succeeds.
\<close>

definition example_rpc :: rpc where
  "example_rpc =
    \<lparr> getAccountInfo = (\<lambda>key. Inr (Some [1])),
      decode_operationsEnabled = (\<lambda>data. Inr True),
      totalAssets = Inr 2000001000000,
      previewRedeem = pro_rata 2000001000000 2000000000000,
      getAssociatedTokenAddress = (\<lambda>mint owner.
        Inr (if mint = shareMint then Address ''userShareAccount'' else Address ''userTokenAccount'')),
      getAccount = (\<lambda>account.
        if account = Address ''userShareAccount'' then Inr 1000000000000 else Inr 250000000),
      newBN = (\<lambda>x. case x of Num r \<Rightarrow> Inr \<lfloor>r\<rfloor> | _ \<Rightarrow> Inl (Error ''Assertion failed'')),
      instruction = (\<lambda>ix. Inr ()),
      getLatestBlockhash = Inr ''blockhash'',
      signAndSendTransaction = (\<lambda>tx. Inr ''signature''),
      confirmTransaction = (\<lambda>signature. Inr ()) \<rparr>"

definition example_wallet :: PublicKey where
  "example_wallet = Address ''user''"

text \<open>The same, for a wallet that has no share account yet.\<close>

definition no_account_rpc :: rpc where
  "no_account_rpc =
     example_rpc\<lparr>getAccount := (\<lambda>account. Inl (Error ''TokenAccountNotFoundError''))\<rparr>"


text \<open>The same, with the user rejecting the transaction in the wallet.\<close>

definition rejecting_rpc :: rpc where
  "rejecting_rpc =
     example_rpc\<lparr>signAndSendTransaction := (\<lambda>tx. Inl (Error ''User rejected the request''))\<rparr>"

text \<open>The same, with the vault-state account missing.\<close>

definition no_vault_state_rpc :: rpc where
  "no_vault_state_rpc = example_rpc\<lparr>getAccountInfo := (\<lambda>key. Inr None)\<rparr>"

text \<open>A \<open>parseFloat\<close> on the three texts the examples type.\<close>

definition example_parseFloat :: "string \<Rightarrow> number" where
  "example_parseFloat t =
    (if t = ''100'' then Num 100 else if t = ''50'' then Num 50 else if t = ''0'' then Num 0
     else if t = ''250'' then Num 250 else NaN)"

text \<open>A route without the mock, for a given request body and a given status of the
  upstream answer.\<close>

definition example_route :: "json \<Rightarrow> nat \<Rightarrow> route_env" where
  "example_route body st =
    \<lparr> request_json = Inr body,
      shouldUseMockBirdeye = False,
      getTokenMarketData = (\<lambda>tokenAddress. Inr (JObject [(''success'', JBool True)])),
      fetch = (\<lambda>tokenAddress.
        Inr \<lparr> status = st, json_of = Inr (JObject [(''data'', JObject [(''price'', JNumber 2)])]) \<rparr>) \<rparr>"

section \<open>The refresh with retry\<close>

lemma quiet_append: "quiet (fx @ gx) = (quiet fx \<and> quiet gx)"
  by (induction fx rule: quiet.induct) simp_all

lemma quiet_fetch_vaultState: "quiet (snd (fetch_vaultState c w)) = quiet (snd w)"
  by (simp add: fetch_vaultState_def upd_def emit_def quiet_append split: sum.splits option.splits)

lemma quiet_fetch_totalAssets: "quiet (snd (fetch_totalAssets rnd c w)) = quiet (snd w)"
  by (simp add: fetch_totalAssets_def upd_def emit_def quiet_append split: sum.splits)

lemma quiet_fetch_exchangeRate: "quiet (snd (fetch_exchangeRate rnd c w)) = quiet (snd w)"
  by (simp add: fetch_exchangeRate_def upd_def emit_def quiet_append split: sum.splits)

lemma quiet_prelude:
  "quiet (snd (fetch_exchangeRate rnd c (fetch_totalAssets rnd c (fetch_vaultState c (s, [])))))"
  by (simp add: quiet_fetch_vaultState quiet_fetch_totalAssets quiet_fetch_exchangeRate)

lemma timer_delays_append: "timer_delays (fx @ gx) = timer_delays fx @ timer_delays gx"
  by (induction fx rule: timer_delays.induct) simp_all

lemma quiet_timer_delays: "quiet fx \<Longrightarrow> timer_delays fx = []"
  by (induction fx rule: quiet.induct) simp_all

lemma quiet_scheduled_retry: "quiet fx \<Longrightarrow> scheduled_retry fx = None"
  by (induction fx rule: quiet.induct) simp_all

lemma quiet_failed_attempts: "quiet fx \<Longrightarrow> failed_attempts fx = 0"
  by (induction fx rule: quiet.induct) (simp_all add: failed_attempts_def)

lemma failed_attempts_append: "failed_attempts (fx @ gx) = failed_attempts fx + failed_attempts gx"
  by (simp add: failed_attempts_def)

lemma fetch_userShare_fails:
  "userShareReadFails c wlt \<Longrightarrow> \<exists>e. fetch_userShare rnd c wlt w = (Inl e, w)"
  by (auto simp: userShareReadFails_def fetch_userShare_def split: sum.splits)

lemma fetchVaultData_fails:
  assumes "userShareReadFails c wlt"
  shows "\<exists>s1 pre. quiet pre \<and>
     fetchVaultData rnd c True (Some wlt) retryCount maxRetries s =
       (if retryCount < maxRetries
        then (s1, pre @ [ConsoleLog ''User share account not found'',
                         SetTimeout [FetchVaultData (retryCount + 1) maxRetries] (2 ^ retryCount * 1000)])
        else (s1\<lparr>userShareBalance := 0, userShareValue := 0\<rparr>,
              pre @ [ConsoleLog ''User share account not found'']))"
proof -
  let ?w3 = "fetch_exchangeRate rnd c (fetch_totalAssets rnd c (fetch_vaultState c (s\<lparr>refreshing := True\<rparr>, [])))"
  obtain e where e: "fetch_userShare rnd c wlt ?w3 = (Inl e, ?w3)"
    using fetch_userShare_fails[OF assms] by blast
  have q: "quiet (snd ?w3)" by (rule quiet_prelude)
  show ?thesis
  proof (cases "retryCount < maxRetries")
    case True
    then have "fetchVaultData rnd c True (Some wlt) retryCount maxRetries s =
       ((fst ?w3)\<lparr>refreshing := False\<rparr>, snd ?w3 @ [ConsoleLog ''User share account not found'',
                         SetTimeout [FetchVaultData (retryCount + 1) maxRetries] (2 ^ retryCount * 1000)])"
      by (simp add: fetchVaultData_def e upd_def emit_def Let_def)
    with q True show ?thesis by auto
  next
    case False
    then have "fetchVaultData rnd c True (Some wlt) retryCount maxRetries s =
       ((fst ?w3)\<lparr>refreshing := False, userShareBalance := 0, userShareValue := 0\<rparr>,
         snd ?w3 @ [ConsoleLog ''User share account not found''])"
      by (simp add: fetchVaultData_def e upd_def emit_def Let_def)
    with q False show ?thesis by (metis (no_types))
  qed
qed

lemma fetchVaultData_run_fails:
  assumes "\<forall>i. retryCount \<le> i \<and> i \<le> maxRetries \<longrightarrow> userShareReadFails (cs i) wlt"
    and "retryCount \<le> maxRetries"
  shows "userShareBalance (fst (fetchVaultData_run rnd cs True (Some wlt) retryCount maxRetries s)) = 0
       \<and> userShareValue (fst (fetchVaultData_run rnd cs True (Some wlt) retryCount maxRetries s)) = 0
       \<and> timer_delays (snd (fetchVaultData_run rnd cs True (Some wlt) retryCount maxRetries s))
           = map (\<lambda>k. 2 ^ k * 1000) [retryCount..<maxRetries]
       \<and> failed_attempts (snd (fetchVaultData_run rnd cs True (Some wlt) retryCount maxRetries s))
           = maxRetries + 1 - retryCount"
  using assms
proof (induction "maxRetries - retryCount" arbitrary: retryCount s)
  case 0
  then have eq: "retryCount = maxRetries" by simp
  from 0 have f: "userShareReadFails (cs retryCount) wlt" by simp
  obtain s1 pre where p: "quiet pre"
    "fetchVaultData rnd (cs retryCount) True (Some wlt) retryCount maxRetries s =
       (s1\<lparr>userShareBalance := 0, userShareValue := 0\<rparr>, pre @ [ConsoleLog ''User share account not found''])"
    using fetchVaultData_fails[OF f, of rnd retryCount maxRetries s] eq by auto
  show ?case
    using p eq
    by (subst (1 2 3 4) fetchVaultData_run.simps)
       (simp add: Let_def scheduled_retry_append quiet_scheduled_retry timer_delays_append
          quiet_timer_delays failed_attempts_append quiet_failed_attempts, simp add: failed_attempts_def)
next
  case (Suc n)
  then have lt: "retryCount < maxRetries" by simp
  from Suc.prems have f: "userShareReadFails (cs retryCount) wlt" by simp
  obtain s1 pre where p: "quiet pre"
    "fetchVaultData rnd (cs retryCount) True (Some wlt) retryCount maxRetries s =
       (s1, pre @ [ConsoleLog ''User share account not found'',
                         SetTimeout [FetchVaultData (retryCount + 1) maxRetries] (2 ^ retryCount * 1000)])"
    using fetchVaultData_fails[OF f, of rnd retryCount maxRetries s] lt by auto
  have IH: "userShareBalance (fst (fetchVaultData_run rnd cs True (Some wlt) (Suc retryCount) maxRetries s1)) = 0
       \<and> userShareValue (fst (fetchVaultData_run rnd cs True (Some wlt) (Suc retryCount) maxRetries s1)) = 0
       \<and> timer_delays (snd (fetchVaultData_run rnd cs True (Some wlt) (Suc retryCount) maxRetries s1))
           = map (\<lambda>k. 2 ^ k * 1000) [Suc retryCount..<maxRetries]
       \<and> failed_attempts (snd (fetchVaultData_run rnd cs True (Some wlt) (Suc retryCount) maxRetries s1))
           = maxRetries + 1 - Suc retryCount"
    using Suc.hyps(2) Suc.prems lt by (intro Suc.hyps(1)) auto
  have run: "fetchVaultData_run rnd cs True (Some wlt) retryCount maxRetries s =
      (fst (fetchVaultData_run rnd cs True (Some wlt) (Suc retryCount) maxRetries s1),
       (pre @ [ConsoleLog ''User share account not found'',
                         SetTimeout [FetchVaultData (retryCount + 1) maxRetries] (2 ^ retryCount * 1000)])
        @ snd (fetchVaultData_run rnd cs True (Some wlt) (Suc retryCount) maxRetries s1))"
    using p
    by (subst fetchVaultData_run.simps)
       (simp add: Let_def scheduled_retry_append quiet_scheduled_retry)
  show ?case
    using IH p(1) lt
    by (simp add: run timer_delays_append quiet_timer_delays failed_attempts_append
        quiet_failed_attempts upt_conv_Cons, simp add: failed_attempts_def)
qed

text \<open>
  C1 (amended). When the read of the user's share account fails at every attempt of a refresh
  started with the defaults \<open>retryCount = 0\<close>, \<open>maxRetries = 3\<close>, the routine sets three
  retry timers with the delays \<open>2 ^ retryCount\<close> seconds, that is 1 s, 2 s and 4 s, and then
  settles on \<open>userShareBalance = 0\<close> and \<open>userShareValue = 0\<close>. The read has then failed four
  times: at attempt 0 and at each of the three retries.
\<close>

theorem C1_refresh_settles_on_zero_after_four_failed_attempts:
  assumes "\<forall>i\<le>3. userShareReadFails (cs i) wlt"
  shows "userShareBalance (fst (fetchVaultData_run rnd cs True (Some wlt) 0 3 s)) = 0
       \<and> userShareValue (fst (fetchVaultData_run rnd cs True (Some wlt) 0 3 s)) = 0
       \<and> timer_delays (snd (fetchVaultData_run rnd cs True (Some wlt) 0 3 s)) = [1000, 2000, 4000]
       \<and> failed_attempts (snd (fetchVaultData_run rnd cs True (Some wlt) 0 3 s)) = 4"
proof -
  have "map (\<lambda>k. 2 ^ k * 1000) [0..<3] = [1000, 2000, 4000::nat]"
    by (simp add: upt_conv_Cons)
  then show ?thesis
    using fetchVaultData_run_fails[of 0 3 cs wlt rnd s] assms by simp
qed

lemma no_account_fails: "userShareReadFails no_account_rpc example_wallet"
  by (simp add: userShareReadFails_def no_account_rpc_def example_rpc_def)

text \<open>The theorem at a wallet without a share account, from a state showing 7 and 8.\<close>

theorem C1_witness:
  "userShareReadFails no_account_rpc example_wallet
   \<and> userShareBalance (fst (fetchVaultData_run (\<lambda>x. x) (\<lambda>i. no_account_rpc) True (Some example_wallet) 0 3
        (initial_state\<lparr>userShareBalance := 7, userShareValue := 8\<rparr>))) = 0
   \<and> userShareValue (fst (fetchVaultData_run (\<lambda>x. x) (\<lambda>i. no_account_rpc) True (Some example_wallet) 0 3
        (initial_state\<lparr>userShareBalance := 7, userShareValue := 8\<rparr>))) = 0
   \<and> timer_delays (snd (fetchVaultData_run (\<lambda>x. x) (\<lambda>i. no_account_rpc) True (Some example_wallet) 0 3
        (initial_state\<lparr>userShareBalance := 7, userShareValue := 8\<rparr>))) = [1000, 2000, 4000]
   \<and> failed_attempts (snd (fetchVaultData_run (\<lambda>x. x) (\<lambda>i. no_account_rpc) True (Some example_wallet) 0 3
        (initial_state\<lparr>userShareBalance := 7, userShareValue := 8\<rparr>))) = 4"
  using C1_refresh_settles_on_zero_after_four_failed_attempts
      [of "\<lambda>i. no_account_rpc" example_wallet "\<lambda>x. x" "initial_state\<lparr>userShareBalance := 7, userShareValue := 8\<rparr>"]
    no_account_fails
  by simp

text \<open>
  C1 as stated has exactly three failed attempts in total. For a wallet without a share
  account the read fails at every attempt, and the number of failed attempts is not three.
\<close>

theorem C1_counterexample:
  "userShareReadFails no_account_rpc example_wallet
   \<and> failed_attempts (snd (fetchVaultData_run (\<lambda>x. x) (\<lambda>i. no_account_rpc) True (Some example_wallet) 0 3
        initial_state)) \<noteq> 3"
  using fetchVaultData_run_fails[of 0 3 "\<lambda>i. no_account_rpc" example_wallet "\<lambda>x. x" initial_state]
    no_account_fails
  by simp

section \<open>What one invocation stores\<close>




lemma exchangeRate_fetch_exchangeRate:
  "previewRedeem c 1000000 = Inr r \<Longrightarrow> exchangeRate (fst (fetch_exchangeRate rnd c w)) = toUi rnd r"
  by (simp add: fetch_exchangeRate_def upd_def)

lemma fetch_userShare_completes:
  assumes "getAssociatedTokenAddress c shareMint wlt = Inr account"
      and "getAccount c account = Inr amt"
      and "0 < toUi rnd amt \<Longrightarrow> previewRedeem c amt = Inr assets"
  shows "fetch_userShare rnd c wlt w =
     (Inr (), upd (\<lambda>s. s\<lparr>userShareValue := (if 0 < toUi rnd amt then toUi rnd assets else 0)\<rparr>)
        (upd (\<lambda>s. s\<lparr>userShareBalance := toUi rnd amt\<rparr>) w))"
  using assms by (simp add: fetch_userShare_def Let_def)

lemma fetchVaultData_completes:
  assumes "getAssociatedTokenAddress c shareMint wlt = Inr account"
      and "getAccount c account = Inr amt"
      and "0 < toUi rnd amt \<Longrightarrow> previewRedeem c amt = Inr assets"
  shows "fetchVaultData rnd c True (Some wlt) retryCount maxRetries s =
     upd (\<lambda>s. s\<lparr>refreshing := False\<rparr>)
      (upd (\<lambda>s. s\<lparr>userShareValue := (if 0 < toUi rnd amt then toUi rnd assets else 0)\<rparr>)
        (upd (\<lambda>s. s\<lparr>userShareBalance := toUi rnd amt\<rparr>)
          (fetch_exchangeRate rnd c (fetch_totalAssets rnd c (fetch_vaultState c (s\<lparr>refreshing := True\<rparr>, []))))))"
  by (simp add: fetchVaultData_def Let_def fetch_userShare_completes[OF assms])


lemma example_toUi: "toUi (\<lambda>x. x) n = of_nat n / 1000000"
  by (simp add: toUi_def Number_def)





section \<open>The displayed value against balance times rate\<close>

lemma display_gap:
  fixes b r a :: nat
  assumes "b * r < 1000000 * a + 1000000" "1000000 * a < b * r + b"
  shows "(of_nat b / 1000000) * (of_nat r / 1000000) - of_nat a / 1000000 < (1 / 1000000 :: rat)
       \<and> of_nat a / 1000000 - (of_nat b / 1000000) * (of_nat r / 1000000) < (of_nat b / 1000000) / (1000000 :: rat)"
proof -
  have 1: "(of_nat (b * r) :: rat) < of_nat (1000000 * a + 1000000)"
    using assms(1) by (simp only: of_nat_less_iff)
  have 2: "(of_nat (1000000 * a) :: rat) < of_nat (b * r + b)"
    using assms(2) by (simp only: of_nat_less_iff)
  from 1 2 show ?thesis by (simp add: field_simps)
qed

lemma floor_scale:
  fixes b m A S :: nat
  assumes "0 < S" "0 < m"
  shows "b * (m * A div S) < m * (b * A div S) + m"
proof -
  have "S * (b * (m * A div S)) = b * (S * (m * A div S))" by (simp add: mult.left_commute)
  also have "\<dots> \<le> b * (m * A)" by (intro mult_le_mono2) simp
  also have "\<dots> = m * (b * A)" by (simp add: mult.left_commute)
  also have "\<dots> < m * (S * (b * A div S) + S)"
  proof -
    have "b * A < S * (b * A div S) + S"
      using assms(1) by (metis dividend_less_times_div add.commute)
    then show ?thesis using assms(2) by simp
  qed
  also have "\<dots> = S * (m * (b * A div S) + m)" by (simp add: algebra_simps)
  finally show ?thesis using assms(1) by simp
qed

text \<open>
  C2 (amended). For a share account holding the raw balance \<open>b > 0\<close>, a completed
  \<open>fetchVaultData\<close> stores \<open>userShareBalance = b / 10^6\<close>, \<open>exchangeRate\<close> = the vault's
  \<open>previewRedeem\<close> of one share (\<open>10^6\<close> raw) \<open>/ 10^6\<close> and \<open>userShareValue\<close> = the vault's
  \<open>previewRedeem\<close> of the whole raw balance \<open>/ 10^6\<close>: two separate previews, never a
  product. For a vault whose preview is the pro-rata floor division \<open>shares * A div S\<close>, the
  two raw results \<open>r\<close> and \<open>a\<close> satisfy \<open>b * r < 10^6 * a + 10^6\<close> and
  \<open>10^6 * a < b * r + b\<close>; with exact double operations this reads: balance times rate
  exceeds the value by less than \<open>10^-6\<close>, and the value exceeds balance times rate by less
  than balance \<open>* 10^-6\<close>, a gap that grows with the balance.
\<close>

theorem C2_value_is_preview_of_raw_balance:
  assumes "getAssociatedTokenAddress c shareMint wlt = Inr account"
      and "getAccount c account = Inr b"
      and "0 < b" and "0 < toUi rnd b"
      and "previewRedeem c = pro_rata A S" and "0 < S"
  shows "userShareBalance (fst (fetchVaultData rnd c True (Some wlt) retryCount maxRetries s)) = toUi rnd b
       \<and> exchangeRate (fst (fetchVaultData rnd c True (Some wlt) retryCount maxRetries s))
           = toUi rnd (1000000 * A div S)
       \<and> userShareValue (fst (fetchVaultData rnd c True (Some wlt) retryCount maxRetries s))
           = toUi rnd (b * A div S)
       \<and> b * (1000000 * A div S) < 1000000 * (b * A div S) + 1000000
       \<and> 1000000 * (b * A div S) < b * (1000000 * A div S) + b
       \<and> ((\<forall>x. rnd x = x) \<longrightarrow>
            userShareBalance (fst (fetchVaultData rnd c True (Some wlt) retryCount maxRetries s))
              * exchangeRate (fst (fetchVaultData rnd c True (Some wlt) retryCount maxRetries s))
              - userShareValue (fst (fetchVaultData rnd c True (Some wlt) retryCount maxRetries s))
              < 1 / 1000000
          \<and> userShareValue (fst (fetchVaultData rnd c True (Some wlt) retryCount maxRetries s))
              - userShareBalance (fst (fetchVaultData rnd c True (Some wlt) retryCount maxRetries s))
                * exchangeRate (fst (fetchVaultData rnd c True (Some wlt) retryCount maxRetries s))
              < userShareBalance (fst (fetchVaultData rnd c True (Some wlt) retryCount maxRetries s))
                / 1000000)"
proof -
  have p: "0 < toUi rnd b \<Longrightarrow> previewRedeem c b = Inr (b * A div S)"
    using assms(5) by (simp add: pro_rata_def)
  have r: "previewRedeem c 1000000 = Inr (1000000 * A div S)"
    using assms(5) by (simp add: pro_rata_def)
  let ?s' = "fst (fetchVaultData rnd c True (Some wlt) retryCount maxRetries s)"
  have R: "exchangeRate ?s' = toUi rnd (1000000 * A div S)"
    by (simp add: fetchVaultData_completes[OF assms(1,2) p] upd_def
        exchangeRate_fetch_exchangeRate[OF r])
  have B: "userShareBalance ?s' = toUi rnd b"
    by (simp add: fetchVaultData_completes[OF assms(1,2) p] upd_def)
  have V: "userShareValue ?s' = toUi rnd (b * A div S)"
    using assms(4) by (simp add: fetchVaultData_completes[OF assms(1,2) p] upd_def)
  have lo: "b * (1000000 * A div S) < 1000000 * (b * A div S) + 1000000"
    using floor_scale[of S 1000000 b A] assms(6) by simp
  have hi: "1000000 * (b * A div S) < b * (1000000 * A div S) + b"
    using floor_scale[of S b 1000000 A] assms(3,6) by simp
  have exact: "toUi rnd n = of_nat n / 1000000" if "\<forall>x. rnd x = x" for n
    using that by (simp add: toUi_def Number_def)
  have gap: "(\<forall>x. rnd x = x) \<longrightarrow>
      userShareBalance ?s' * exchangeRate ?s' - userShareValue ?s' < 1 / 1000000
    \<and> userShareValue ?s' - userShareBalance ?s' * exchangeRate ?s' < userShareBalance ?s' / 1000000"
    using display_gap[OF lo hi] by (simp only: R B V) (simp add: exact)
  from R B V lo hi gap show ?thesis by blast
qed

text \<open>The theorem at the user holding 1,000,000 of the 2,000,000 shares of a vault of
  2,000,001 tokens.\<close>

theorem C2_witness:
  "getAssociatedTokenAddress example_rpc shareMint example_wallet = Inr (Address ''userShareAccount'')
   \<and> getAccount example_rpc (Address ''userShareAccount'') = Inr 1000000000000
   \<and> previewRedeem example_rpc = pro_rata 2000001000000 2000000000000
   \<and> userShareBalance (fst (fetchVaultData (\<lambda>x. x) example_rpc True (Some example_wallet) 0 3 initial_state))
        = 1000000
   \<and> exchangeRate (fst (fetchVaultData (\<lambda>x. x) example_rpc True (Some example_wallet) 0 3 initial_state))
        = 1
   \<and> userShareValue (fst (fetchVaultData (\<lambda>x. x) example_rpc True (Some example_wallet) 0 3 initial_state))
        = 2000001 / 2"
proof -
  have a: "getAssociatedTokenAddress example_rpc shareMint example_wallet = Inr (Address ''userShareAccount'')"
    by (simp add: example_rpc_def)
  have b: "getAccount example_rpc (Address ''userShareAccount'') = Inr 1000000000000"
    by (simp add: example_rpc_def)
  have c: "previewRedeem example_rpc = pro_rata 2000001000000 2000000000000"
    by (simp add: example_rpc_def)
  have d: "0 < toUi (\<lambda>x. x) 1000000000000"
    by (simp add: example_toUi)
  show ?thesis
    using C2_value_is_preview_of_raw_balance[OF a b _ d c, of 0 3 initial_state] a b c
    by (simp add: example_toUi)
qed

text \<open>
  C2 as stated has the value equal to balance times rate up to one unit in the sixth
  decimal place. For that user the rate shown is 1, the balance 1,000,000 and the value
  1,000,000.5: the value is half a token more than balance times rate. Every number here is
  a double, so no rounding is involved.
\<close>

theorem C2_counterexample:
  "getAccount example_rpc (Address ''userShareAccount'') = Inr 1000000000000
   \<and> userShareValue (fst (fetchVaultData (\<lambda>x. x) example_rpc True (Some example_wallet) 0 3 initial_state))
     - userShareBalance (fst (fetchVaultData (\<lambda>x. x) example_rpc True (Some example_wallet) 0 3 initial_state))
       * exchangeRate (fst (fetchVaultData (\<lambda>x. x) example_rpc True (Some example_wallet) 0 3 initial_state))
     = 1 / 2"
proof -
  have a: "getAssociatedTokenAddress example_rpc shareMint example_wallet = Inr (Address ''userShareAccount'')"
    by (simp add: example_rpc_def)
  have b: "getAccount example_rpc (Address ''userShareAccount'') = Inr 1000000000000"
    by (simp add: example_rpc_def)
  have p: "previewRedeem example_rpc 1000000000000 = Inr 1000000500000"
    by (simp add: example_rpc_def pro_rata_def)
  have r: "previewRedeem example_rpc 1000000 = Inr 1000000"
    by (simp add: example_rpc_def pro_rata_def)
  show ?thesis
    using b
    by (simp add: fetchVaultData_completes[OF a b p] upd_def exchangeRate_fetch_exchangeRate[OF r]
        example_toUi)
qed

section \<open>The transactions of handleDeposit and handleRedeem\<close>

lemma submit_Inr:
  "submit c tx w = (Inr u, w') \<Longrightarrow> w' = emit (SignAndSend tx) w"
  by (auto simp: submit_def await_def Let_def split: sum.splits)

lemma submit_Inl:
  "submit c tx w = (Inl e, w') \<Longrightarrow> w' = w \<or> w' = emit (SignAndSend tx) w"
  by (auto simp: submit_def await_def Let_def split: sum.splits)

lemma handleRedeem_try_Inr:
  assumes "handleRedeem_try rnd c program wlt x (s, []) = (Inr u, w)"
  shows "\<exists>account totalShares shares tokenAccount.
      getAssociatedTokenAddress c shareMint wlt = Inr account
    \<and> getAccount c account = Inr totalShares
    \<and> sharesToRedeem rnd totalShares x = Inr shares
    \<and> getAssociatedTokenAddress c ZC_TOKEN_MINT wlt = Inr tokenAccount
    \<and> w = (s\<lparr>loading := True, redeemPercent := [], postTransactionRefreshing := True\<rparr>,
          [SignAndSend (new_Transaction c wlt tokenAccount ZC_TOKEN_MINT @ [RedeemIx shares]),
           ShowToast success (Redeemed x),
           SetTimeout [FetchVaultData 0 3, FetchZcBalance, SetPostTransactionRefreshing False] 8000])"
  using assms
  by (auto simp: handleRedeem_try_def await_def Let_def schedule_refresh_def upd_def emit_def
      split: sum.splits if_splits prod.splits dest!: submit_Inr)

lemma handleRedeem_try_Inl:
  assumes "handleRedeem_try rnd c program wlt x (s, []) = (Inl e, w)"
  shows "fst w = s\<lparr>loading := True\<rparr> \<and>
    (snd w = [] \<or>
     (\<exists>account totalShares shares tokenAccount.
        getAssociatedTokenAddress c shareMint wlt = Inr account
      \<and> getAccount c account = Inr totalShares
      \<and> sharesToRedeem rnd totalShares x = Inr shares
      \<and> getAssociatedTokenAddress c ZC_TOKEN_MINT wlt = Inr tokenAccount
      \<and> snd w = [SignAndSend (new_Transaction c wlt tokenAccount ZC_TOKEN_MINT @ [RedeemIx shares])]))"
  using assms
  by (auto simp: handleRedeem_try_def await_def Let_def schedule_refresh_def upd_def emit_def
      split: sum.splits if_splits prod.splits dest!: submit_Inl)

lemma handleDeposit_try_Inr:
  assumes "handleDeposit_try rnd c program wlt x (s, []) = (Inr u, w)"
  shows "\<exists>tx. w = (s\<lparr>loading := True, amount := [], postTransactionRefreshing := True\<rparr>,
          [SignAndSend tx, ShowToast success (Staked x),
           SetTimeout [FetchVaultData 0 3, FetchZcBalance, SetPostTransactionRefreshing False] 8000])"
  using assms
  by (auto simp: handleDeposit_try_def await_def Let_def schedule_refresh_def upd_def emit_def
      split: sum.splits if_splits prod.splits dest!: submit_Inr)

lemma handleDeposit_try_Inl:
  assumes "handleDeposit_try rnd c program wlt x (s, []) = (Inl e, w)"
  shows "fst w = s\<lparr>loading := True\<rparr> \<and> (snd w = [] \<or> (\<exists>tx. snd w = [SignAndSend tx]))"
  using assms
  by (auto simp: handleDeposit_try_def await_def Let_def schedule_refresh_def upd_def emit_def
      split: sum.splits if_splits prod.splits dest!: submit_Inl)

lemma BigInt_div_10000: "0 \<le> a \<Longrightarrow> BigInt_div a 10000 = a div 10000"
  by (cases "a = 0") (simp_all add: BigInt_div_def)

lemma sharesToRedeem_bounds:
  assumes mono: "\<forall>x y. x \<le> y \<longrightarrow> rnd x \<le> rnd y"
      and zero: "rnd 0 = 0" and top: "rnd 10000 = 10000"
      and r: "0 < r" "r \<le> 100"
  shows "\<exists>n. sharesToRedeem rnd totalShares (Num r) = Inr n \<and> 0 \<le> n \<and> n \<le> int totalShares"
proof -
  have lo: "0 \<le> rnd (r * 100)"
    using mono zero r(1) by (metis mult_nonneg_nonneg less_imp_le zero_le_numeral)
  have "r * 100 \<le> 10000" using r(2) by simp
  then have hi: "rnd (r * 100) \<le> 10000"
    using mono top by metis
  have f0: "0 \<le> \<lfloor>rnd (r * 100)\<rfloor>" using lo by simp
  have f1: "\<lfloor>rnd (r * 100)\<rfloor> \<le> 10000" using hi by (simp add: floor_le_iff)
  have nn: "0 \<le> int totalShares * \<lfloor>rnd (r * 100)\<rfloor>" using f0 by simp
  have "int totalShares * \<lfloor>rnd (r * 100)\<rfloor> \<le> int totalShares * 10000"
    using f1 by (intro mult_left_mono) simp_all
  then have "int totalShares * \<lfloor>rnd (r * 100)\<rfloor> div 10000 \<le> int totalShares"
    by (metis zdiv_mono1 zero_less_numeral nonzero_mult_div_cancel_right zero_neq_numeral)
  moreover have "0 \<le> int totalShares * \<lfloor>rnd (r * 100)\<rfloor> div 10000"
    using nn by (simp add: pos_imp_zdiv_nonneg_iff)
  ultimately show ?thesis
    by (simp add: sharesToRedeem_def BigInt_div_10000[OF nn])
qed

lemma valid_percentage_iff:
  "valid_percentage x \<longleftrightarrow> (\<exists>r. x = Num r \<and> 0 < r \<and> r \<le> 100)"
  by (cases x) (auto simp: valid_percentage_def)

lemma sharesToRedeem_full:
  assumes "rnd 10000 = 10000"
  shows "sharesToRedeem rnd totalShares (Num 100) = Inr (int totalShares)"
proof -
  have "BigInt_div (int totalShares * 10000) 10000 = int totalShares"
    by (subst BigInt_div_10000) simp_all
  then show ?thesis using assms by (simp add: sharesToRedeem_def)
qed

lemma new_Transaction_no_redeem: "RedeemIx n \<notin> set (new_Transaction c wlt account mint)"
  by (simp add: new_Transaction_def split: sum.splits)

lemma handleRedeem_effects:
  assumes "SignAndSend tx \<in> set (snd (handleRedeem rnd parseFloat c program walletProvider (Some wlt) s))"
  shows "valid_percentage (parseFloat (redeemPercent s)) \<and>
     (\<exists>account totalShares shares tokenAccount.
        getAssociatedTokenAddress c shareMint wlt = Inr account
      \<and> getAccount c account = Inr totalShares
      \<and> sharesToRedeem rnd totalShares (parseFloat (redeemPercent s)) = Inr shares
      \<and> tx = new_Transaction c wlt tokenAccount ZC_TOKEN_MINT @ [RedeemIx shares])"
proof -
  let ?x = "parseFloat (redeemPercent s)"
  have v: "valid_percentage ?x" and wp: walletProvider
    using assms by (auto simp: handleRedeem_def Let_def emit_def split: if_splits)
  obtain res w where t: "handleRedeem_try rnd c program wlt ?x (s, []) = (res, w)"
    by (cases "handleRedeem_try rnd c program wlt ?x (s, [])") auto
  show ?thesis
  proof (cases res)
    case (Inl e)
    from handleRedeem_try_Inl[OF t[unfolded Inl]] assms v wp t Inl
    show ?thesis
      by (auto simp: handleRedeem_def Let_def emit_def upd_def)
  next
    case (Inr u)
    from handleRedeem_try_Inr[OF t[unfolded Inr]] assms v wp t Inr
    show ?thesis
      by (auto simp: handleRedeem_def Let_def emit_def upd_def)
  qed
qed

text \<open>
  C9. For every percentage \<open>0 < p \<le> 100\<close> and every raw share balance, the amount
  \<open>(totalShares * floor(p * 100)) / 10000\<close> lies between 0 and the balance; and every redeem
  instruction in a transaction that \<open>handleRedeem\<close> hands to the wallet carries an amount
  between 0 and the balance its read of the share account returned. The double product
  \<open>p * 100\<close> may be rounded by any monotone rounding that is exact at 0 and at 10000, as
  rounding to the nearest double is.
\<close>

theorem C9_never_more_than_held:
  assumes "\<forall>x y. x \<le> y \<longrightarrow> rnd x \<le> rnd y" and "rnd 0 = 0" and "rnd 10000 = 10000"
  shows "(\<forall>r. 0 < r \<and> r \<le> 100 \<longrightarrow>
            (\<exists>n. sharesToRedeem rnd totalShares (Num r) = Inr n \<and> 0 \<le> n \<and> n \<le> int totalShares))
       \<and> (\<forall>tx n. SignAndSend tx \<in> set (snd (handleRedeem rnd parseFloat c program walletProvider (Some wlt) s))
             \<and> RedeemIx n \<in> set tx \<longrightarrow>
            (\<exists>account held. getAssociatedTokenAddress c shareMint wlt = Inr account
               \<and> getAccount c account = Inr held \<and> 0 \<le> n \<and> n \<le> int held))"
proof (intro conjI allI impI)
  fix r :: rat assume "0 < r \<and> r \<le> 100"
  then show "\<exists>n. sharesToRedeem rnd totalShares (Num r) = Inr n \<and> 0 \<le> n \<and> n \<le> int totalShares"
    using sharesToRedeem_bounds[of rnd, OF assms] by blast
next
  fix tx n
  assume a: "SignAndSend tx \<in> set (snd (handleRedeem rnd parseFloat c program walletProvider (Some wlt) s))
     \<and> RedeemIx n \<in> set tx"
  from handleRedeem_effects[OF a[THEN conjunct1]]
  obtain account held shares tokenAccount r where
    h: "getAssociatedTokenAddress c shareMint wlt = Inr account" "getAccount c account = Inr held"
       "sharesToRedeem rnd held (Num r) = Inr shares" "0 < r" "r \<le> 100"
       "tx = new_Transaction c wlt tokenAccount ZC_TOKEN_MINT @ [RedeemIx shares]"
    by (auto simp: valid_percentage_iff)
  from a h(6) have "n = shares"
    by (auto simp: new_Transaction_no_redeem)
  moreover from sharesToRedeem_bounds[of rnd _ held, OF assms h(4,5)] h(3)
  have "0 \<le> shares \<and> shares \<le> int held" by auto
  ultimately show "\<exists>account held. getAssociatedTokenAddress c shareMint wlt = Inr account
               \<and> getAccount c account = Inr held \<and> 0 \<le> n \<and> n \<le> int held"
    using h(1,2) by blast
qed

lemma example_redeem_50:
  "handleRedeem (\<lambda>x. x) example_parseFloat example_rpc True True (Some example_wallet)
      (initial_state\<lparr>modalMode := redeem, redeemPercent := ''50''\<rparr>)
   = (initial_state\<lparr>modalMode := redeem, redeemPercent := [], postTransactionRefreshing := True\<rparr>,
      [SignAndSend [RedeemIx 500000000000], ShowToast success (Redeemed (Num 50)),
       SetTimeout [FetchVaultData 0 3, FetchZcBalance, SetPostTransactionRefreshing False] 8000])"
  by (simp add: handleRedeem_def handleRedeem_try_def Let_def valid_percentage_def example_parseFloat_def
      example_rpc_def await_def sharesToRedeem_def BigInt_div_def submit_def new_Transaction_def
      schedule_refresh_def upd_def emit_def initial_state_def)

text \<open>The theorem at exact rounding, for the user holding \<open>10 ^ 12\<close> raw shares who redeems
  50 percent.\<close>

theorem C9_witness:
  "sharesToRedeem (\<lambda>x. x) 1000000000000 (Num 50) = Inr 500000000000
   \<and> SignAndSend [RedeemIx 500000000000] \<in> set (snd (handleRedeem (\<lambda>x. x) example_parseFloat example_rpc
         True True (Some example_wallet) (initial_state\<lparr>modalMode := redeem, redeemPercent := ''50''\<rparr>)))
   \<and> getAccount example_rpc (Address ''userShareAccount'') = Inr 1000000000000
   \<and> (500000000000 :: int) \<le> int 1000000000000"
proof -
  have m: "\<forall>x y :: rat. x \<le> y \<longrightarrow> (\<lambda>x. x) x \<le> (\<lambda>x. x) y" by simp
  have s: "SignAndSend [RedeemIx 500000000000] \<in> set (snd (handleRedeem (\<lambda>x. x) example_parseFloat example_rpc
         True True (Some example_wallet) (initial_state\<lparr>modalMode := redeem, redeemPercent := ''50''\<rparr>)))"
    by (simp add: example_redeem_50)
  have g: "getAccount example_rpc (Address ''userShareAccount'') = Inr 1000000000000"
    by (simp add: example_rpc_def)
  have a: "getAssociatedTokenAddress example_rpc shareMint example_wallet = Inr (Address ''userShareAccount'')"
    by (simp add: example_rpc_def)
  from C9_never_more_than_held[where rnd = "\<lambda>x. x" and totalShares = 1000000000000
      and parseFloat = example_parseFloat and c = example_rpc and program = True
      and walletProvider = True and wlt = example_wallet
      and s = "initial_state\<lparr>modalMode := redeem, redeemPercent := ''50''\<rparr>", OF m]
  have "(\<exists>n. sharesToRedeem (\<lambda>x. x) 1000000000000 (Num 50) = Inr n \<and> 0 \<le> n \<and> n \<le> int 1000000000000)
     \<and> (\<exists>account held. getAssociatedTokenAddress example_rpc shareMint example_wallet = Inr account
               \<and> getAccount example_rpc account = Inr held \<and> 0 \<le> (500000000000::int) \<and> 500000000000 \<le> int held)"
    using s by force
  with a g show ?thesis
    using s by (simp add: sharesToRedeem_def BigInt_div_def)
qed

text \<open>
  C3. At 100 percent the amount is computed by the basis-point formula
  \<open>(totalShares * floor(100 * 100)) / 10000\<close> and equals \<open>totalShares\<close>; when the calls up to
  the blockhash succeed, the one transaction \<open>handleRedeem\<close> hands to the wallet redeems
  exactly \<open>totalShares\<close>. The product \<open>100 * 100 = 10000\<close> is a double, so its rounding is
  exact.
\<close>

theorem C3_full_balance_at_100_percent:
  assumes "rnd 10000 = 10000"
      and "parseFloat (redeemPercent s) = Num 100"
      and "getAssociatedTokenAddress c shareMint wlt = Inr account"
      and "getAccount c account = Inr totalShares"
      and "getAssociatedTokenAddress c ZC_TOKEN_MINT wlt = Inr tokenAccount"
      and "instruction c (RedeemIx (int totalShares)) = Inr ()"
      and "getLatestBlockhash c = Inr blockhash"
  shows "sharesToRedeem rnd totalShares (Num 100)
           = Inr (BigInt_div (int totalShares * \<lfloor>rnd (100 * 100)\<rfloor>) 10000)
       \<and> sharesToRedeem rnd totalShares (Num 100) = Inr (int totalShares)
       \<and> submissions (snd (handleRedeem rnd parseFloat c True True (Some wlt) s))
           = [new_Transaction c wlt tokenAccount ZC_TOKEN_MINT @ [RedeemIx (int totalShares)]]"
proof -
  have full: "sharesToRedeem rnd totalShares (Num 100) = Inr (int totalShares)"
    using assms(1) by (rule sharesToRedeem_full[of rnd])
  have v: "valid_percentage (Num 100)" by (simp add: valid_percentage_def)
  have "submissions (snd (handleRedeem rnd parseFloat c True True (Some wlt) s))
           = [new_Transaction c wlt tokenAccount ZC_TOKEN_MINT @ [RedeemIx (int totalShares)]]"
    using assms(2-7) full v
    by (simp add: handleRedeem_def handleRedeem_try_def Let_def await_def submit_def
        schedule_refresh_def upd_def emit_def split: sum.splits)
  with full show ?thesis by (simp add: sharesToRedeem_def)
qed

text \<open>The theorem for the user holding \<open>10 ^ 12\<close> raw shares.\<close>

theorem C3_witness:
  "example_parseFloat (redeemPercent (initial_state\<lparr>modalMode := redeem, redeemPercent := ''100''\<rparr>)) = Num 100
   \<and> getAccount example_rpc (Address ''userShareAccount'') = Inr 1000000000000
   \<and> sharesToRedeem (\<lambda>x. x) 1000000000000 (Num 100) = Inr 1000000000000
   \<and> submissions (snd (handleRedeem (\<lambda>x. x) example_parseFloat example_rpc True True (Some example_wallet)
        (initial_state\<lparr>modalMode := redeem, redeemPercent := ''100''\<rparr>)))
       = [[RedeemIx 1000000000000]]"
proof -
  have p: "example_parseFloat (redeemPercent (initial_state\<lparr>modalMode := redeem, redeemPercent := ''100''\<rparr>)) = Num 100"
    by (simp add: example_parseFloat_def)
  have a: "getAssociatedTokenAddress example_rpc shareMint example_wallet = Inr (Address ''userShareAccount'')"
    by (simp add: example_rpc_def)
  have g: "getAccount example_rpc (Address ''userShareAccount'') = Inr 1000000000000"
    by (simp add: example_rpc_def)
  have t: "getAssociatedTokenAddress example_rpc ZC_TOKEN_MINT example_wallet = Inr (Address ''userTokenAccount'')"
    by (simp add: example_rpc_def ZC_TOKEN_MINT_def shareMint_def)
  have i: "instruction example_rpc (RedeemIx (int 1000000000000)) = Inr ()"
    by (simp add: example_rpc_def)
  have b: "getLatestBlockhash example_rpc = Inr ''blockhash''"
    by (simp add: example_rpc_def)
  have n: "new_Transaction example_rpc example_wallet (Address ''userTokenAccount'') ZC_TOKEN_MINT = []"
    by (simp add: new_Transaction_def example_rpc_def)
  from C3_full_balance_at_100_percent[where rnd = "\<lambda>x. x" and parseFloat = example_parseFloat
      and s = "initial_state\<lparr>modalMode := redeem, redeemPercent := ''100''\<rparr>"
      and c = example_rpc and wlt = example_wallet and account = "Address ''userShareAccount''"
      and totalShares = 1000000000000 and tokenAccount = "Address ''userTokenAccount''"
      and blockhash = "''blockhash''"] p a g t i b n
  show ?thesis by (simp add: BigInt_div_def)
qed

text \<open>
  C5. When \<open>parseFloat\<close> of the percentage text is \<open>NaN\<close>, at most 0 or more than 100,
  \<open>handleRedeem\<close> shows the error toast and returns: the state is unchanged and nothing else
  happens. So a transaction is handed to the wallet only for a finite percentage in
  \<open>(0, 100]\<close>. The input itself stores a typed text as it is or ignores it; it never stores
  a clamped value.
\<close>

theorem C5_percentage_outside_range_is_rejected:
  assumes "parseFloat (redeemPercent s) = x"
  shows "(x = NaN \<or> number_le x 0 \<or> number_gt x 100 \<longrightarrow>
            handleRedeem rnd parseFloat c program walletProvider wallet s
              = (s, [ShowToast error (Text ''Please enter a valid percentage between 0 and 100'')]))
       \<and> (submissions (snd (handleRedeem rnd parseFloat c program walletProvider wallet s)) \<noteq> [] \<longrightarrow>
            (\<exists>r. x = Num r \<and> 0 < r \<and> r \<le> 100))
       \<and> (redeemPercent_onChange parseFloat v s = s\<lparr>redeemPercent := v\<rparr>
            \<or> redeemPercent_onChange parseFloat v s = s)"
proof (intro conjI impI)
  assume "x = NaN \<or> number_le x 0 \<or> number_gt x 100"
  then have "\<not> valid_percentage x"
    by (cases x) (auto simp: valid_percentage_def)
  then show "handleRedeem rnd parseFloat c program walletProvider wallet s
              = (s, [ShowToast error (Text ''Please enter a valid percentage between 0 and 100'')])"
    using assms by (simp add: handleRedeem_def emit_def)
next
  assume sub: "submissions (snd (handleRedeem rnd parseFloat c program walletProvider wallet s)) \<noteq> []"
  have "valid_percentage x"
  proof (rule ccontr)
    assume "\<not> valid_percentage x"
    then have "handleRedeem rnd parseFloat c program walletProvider wallet s
              = (s, [ShowToast error (Text ''Please enter a valid percentage between 0 and 100'')])"
      using assms by (simp add: handleRedeem_def emit_def)
    with sub show False by simp
  qed
  then show "\<exists>r. x = Num r \<and> 0 < r \<and> r \<le> 100"
    by (simp add: valid_percentage_iff)
next
  show "redeemPercent_onChange parseFloat v s = s\<lparr>redeemPercent := v\<rparr>
            \<or> redeemPercent_onChange parseFloat v s = s"
    by (simp add: redeemPercent_onChange_def)
qed

text \<open>The theorem at the text 250, which is rejected; the text 50 is submitted.\<close>

theorem C5_witness:
  "example_parseFloat (redeemPercent (initial_state\<lparr>modalMode := redeem, redeemPercent := ''250''\<rparr>)) = Num 250
   \<and> number_gt (Num 250) 100
   \<and> handleRedeem (\<lambda>x. x) example_parseFloat example_rpc True True (Some example_wallet)
        (initial_state\<lparr>modalMode := redeem, redeemPercent := ''250''\<rparr>)
      = (initial_state\<lparr>modalMode := redeem, redeemPercent := ''250''\<rparr>,
         [ShowToast error (Text ''Please enter a valid percentage between 0 and 100'')])
   \<and> submissions (snd (handleRedeem (\<lambda>x. x) example_parseFloat example_rpc True True (Some example_wallet)
        (initial_state\<lparr>modalMode := redeem, redeemPercent := ''50''\<rparr>))) = [[RedeemIx 500000000000]]
   \<and> example_parseFloat ''50'' = Num 50"
proof -
  have p: "example_parseFloat (redeemPercent (initial_state\<lparr>modalMode := redeem, redeemPercent := ''250''\<rparr>)) = Num 250"
    by (simp add: example_parseFloat_def)
  from C5_percentage_outside_range_is_rejected[where parseFloat = example_parseFloat
      and s = "initial_state\<lparr>modalMode := redeem, redeemPercent := ''250''\<rparr>" and x = "Num 250"
      and rnd = "\<lambda>x. x" and c = example_rpc and program = True and walletProvider = True
      and wallet = "Some example_wallet"] p
  show ?thesis
    by (simp add: example_redeem_50) (simp add: example_parseFloat_def)
qed

lemma submissions_append: "submissions (fx @ gx) = submissions fx @ submissions gx"
  by (induction fx rule: submissions.induct) simp_all

text \<open>
  C7. When the \<open>try\<close> body of \<open>handleDeposit\<close> or \<open>handleRedeem\<close> throws \<open>e\<close> at any step
  (program missing, building, blockhash, signing and sending, confirming), the handler adds
  exactly the console error and the error toast (the message of \<open>e\<close>, or the fixed text) to
  what the body had done, clears \<open>loading\<close> and ends. The whole run hands at most one
  transaction to the wallet and sets no timer: nothing is submitted again.
\<close>

theorem C7_failed_submission_is_not_retried:
  "(\<not> falsy_number (parseFloat (amount s)) \<and> \<not> number_le (parseFloat (amount s)) 0
      \<and> handleDeposit_try rnd c program wlt (parseFloat (amount s)) (s, []) = (Inl e, w) \<longrightarrow>
        handleDeposit rnd parseFloat c program True (Some wlt) s
          = (s\<lparr>loading := False\<rparr>,
             snd w @ [ConsoleError ''Deposit failed:'' e,
                      ShowToast error (Text (message_or e ''Failed to deposit tokens''))])
        \<and> length (submissions (snd w)) \<le> 1 \<and> timer_delays (snd w) = []
        \<and> length (submissions (snd (handleDeposit rnd parseFloat c program True (Some wlt) s))) \<le> 1
        \<and> timer_delays (snd (handleDeposit rnd parseFloat c program True (Some wlt) s)) = [])
   \<and> (valid_percentage (parseFloat (redeemPercent s))
      \<and> handleRedeem_try rnd c program wlt (parseFloat (redeemPercent s)) (s, []) = (Inl e, w) \<longrightarrow>
        handleRedeem rnd parseFloat c program True (Some wlt) s
          = (s\<lparr>loading := False\<rparr>,
             snd w @ [ConsoleError ''Redemption failed:'' e,
                      ShowToast error (Text (message_or e ''Failed to redeem shares''))])
        \<and> length (submissions (snd w)) \<le> 1 \<and> timer_delays (snd w) = []
        \<and> length (submissions (snd (handleRedeem rnd parseFloat c program True (Some wlt) s))) \<le> 1
        \<and> timer_delays (snd (handleRedeem rnd parseFloat c program True (Some wlt) s)) = [])"
proof (intro conjI impI)
  assume a: "\<not> falsy_number (parseFloat (amount s)) \<and> \<not> number_le (parseFloat (amount s)) 0
      \<and> handleDeposit_try rnd c program wlt (parseFloat (amount s)) (s, []) = (Inl e, w)"
  then have t: "handleDeposit_try rnd c program wlt (parseFloat (amount s)) (s, []) = (Inl e, w)" by simp
  from handleDeposit_try_Inl[OF t]
  have w: "fst w = s\<lparr>loading := True\<rparr>" "snd w = [] \<or> (\<exists>tx. snd w = [SignAndSend tx])" by auto
  have r: "handleDeposit rnd parseFloat c program True (Some wlt) s
          = (s\<lparr>loading := False\<rparr>,
             snd w @ [ConsoleError ''Deposit failed:'' e,
                      ShowToast error (Text (message_or e ''Failed to deposit tokens''))])"
    using a w(1) by (simp add: handleDeposit_def Let_def t upd_def emit_def)
  show "handleDeposit rnd parseFloat c program True (Some wlt) s
          = (s\<lparr>loading := False\<rparr>,
             snd w @ [ConsoleError ''Deposit failed:'' e,
                      ShowToast error (Text (message_or e ''Failed to deposit tokens''))])"
    by (rule r)
  show "length (submissions (snd w)) \<le> 1" using w(2) by auto
  show "timer_delays (snd w) = []" using w(2) by auto
  show "length (submissions (snd (handleDeposit rnd parseFloat c program True (Some wlt) s))) \<le> 1"
    using w(2) by (auto simp: r submissions_append)
  show "timer_delays (snd (handleDeposit rnd parseFloat c program True (Some wlt) s)) = []"
    using w(2) by (auto simp: r timer_delays_append)
next
  assume a: "valid_percentage (parseFloat (redeemPercent s))
      \<and> handleRedeem_try rnd c program wlt (parseFloat (redeemPercent s)) (s, []) = (Inl e, w)"
  then have t: "handleRedeem_try rnd c program wlt (parseFloat (redeemPercent s)) (s, []) = (Inl e, w)" by simp
  from handleRedeem_try_Inl[OF t]
  have w: "fst w = s\<lparr>loading := True\<rparr>" "snd w = [] \<or> (\<exists>tx. snd w = [SignAndSend tx])" by auto
  have r: "handleRedeem rnd parseFloat c program True (Some wlt) s
          = (s\<lparr>loading := False\<rparr>,
             snd w @ [ConsoleError ''Redemption failed:'' e,
                      ShowToast error (Text (message_or e ''Failed to redeem shares''))])"
    using a w(1) by (simp add: handleRedeem_def Let_def t upd_def emit_def)
  show "handleRedeem rnd parseFloat c program True (Some wlt) s
          = (s\<lparr>loading := False\<rparr>,
             snd w @ [ConsoleError ''Redemption failed:'' e,
                      ShowToast error (Text (message_or e ''Failed to redeem shares''))])"
    by (rule r)
  show "length (submissions (snd w)) \<le> 1" using w(2) by auto
  show "timer_delays (snd w) = []" using w(2) by auto
  show "length (submissions (snd (handleRedeem rnd parseFloat c program True (Some wlt) s))) \<le> 1"
    using w(2) by (auto simp: r submissions_append)
  show "timer_delays (snd (handleRedeem rnd parseFloat c program True (Some wlt) s)) = []"
    using w(2) by (auto simp: r timer_delays_append)
qed

lemma example_deposit_rejected:
  "handleDeposit_try (\<lambda>x. x) rejecting_rpc True example_wallet (Num 50) (s, [])
     = (Inl (Error ''User rejected the request''), (s\<lparr>loading := True\<rparr>, [SignAndSend [DepositIx 50000000]]))"
  by (simp add: handleDeposit_try_def Let_def rejecting_rpc_def example_rpc_def await_def submit_def
      new_Transaction_def upd_def emit_def)

lemma example_redeem_rejected:
  "handleRedeem_try (\<lambda>x. x) rejecting_rpc True example_wallet (Num 50) (s, [])
     = (Inl (Error ''User rejected the request''), (s\<lparr>loading := True\<rparr>, [SignAndSend [RedeemIx 500000000000]]))"
  by (simp add: handleRedeem_try_def Let_def rejecting_rpc_def example_rpc_def await_def submit_def
      new_Transaction_def upd_def emit_def sharesToRedeem_def BigInt_div_def)

text \<open>The theorem for a user who rejects the transaction in the wallet, in both handlers.\<close>

theorem C7_witness:
  "handleDeposit_try (\<lambda>x. x) rejecting_rpc True example_wallet (Num 50)
      (initial_state\<lparr>amount := ''50'', redeemPercent := ''50''\<rparr>, [])
     = (Inl (Error ''User rejected the request''),
        (initial_state\<lparr>amount := ''50'', redeemPercent := ''50'', loading := True\<rparr>,
         [SignAndSend [DepositIx 50000000]]))
   \<and> handleDeposit (\<lambda>x. x) example_parseFloat rejecting_rpc True True (Some example_wallet)
      (initial_state\<lparr>amount := ''50'', redeemPercent := ''50''\<rparr>)
     = (initial_state\<lparr>amount := ''50'', redeemPercent := ''50'', loading := False\<rparr>,
        [SignAndSend [DepositIx 50000000],
         ConsoleError ''Deposit failed:'' (Error ''User rejected the request''),
         ShowToast error (Text ''User rejected the request'')])
   \<and> handleRedeem_try (\<lambda>x. x) rejecting_rpc True example_wallet (Num 50)
      (initial_state\<lparr>amount := ''50'', redeemPercent := ''50''\<rparr>, [])
     = (Inl (Error ''User rejected the request''),
        (initial_state\<lparr>amount := ''50'', redeemPercent := ''50'', loading := True\<rparr>,
         [SignAndSend [RedeemIx 500000000000]]))
   \<and> handleRedeem (\<lambda>x. x) example_parseFloat rejecting_rpc True True (Some example_wallet)
      (initial_state\<lparr>amount := ''50'', redeemPercent := ''50''\<rparr>)
     = (initial_state\<lparr>amount := ''50'', redeemPercent := ''50'', loading := False\<rparr>,
        [SignAndSend [RedeemIx 500000000000],
         ConsoleError ''Redemption failed:'' (Error ''User rejected the request''),
         ShowToast error (Text ''User rejected the request'')])"
proof -
  let ?s = "initial_state\<lparr>amount := ''50'', redeemPercent := ''50''\<rparr>"
  have p: "example_parseFloat (amount ?s) = Num 50" "example_parseFloat (redeemPercent ?s) = Num 50"
    by (simp_all add: example_parseFloat_def)
  have v: "valid_percentage (Num 50)" "\<not> falsy_number (Num 50)" "\<not> number_le (Num 50) 0"
    by (simp_all add: valid_percentage_def)
  from C7_failed_submission_is_not_retried[where parseFloat = example_parseFloat and s = ?s
      and rnd = "\<lambda>x. x" and c = rejecting_rpc and program = True and wlt = example_wallet
      and e = "Error ''User rejected the request''"
      and w = "(?s\<lparr>loading := True\<rparr>, [SignAndSend [DepositIx 50000000]])"]
  have d: "handleDeposit (\<lambda>x. x) example_parseFloat rejecting_rpc True True (Some example_wallet) ?s
     = (?s\<lparr>loading := False\<rparr>,
        [SignAndSend [DepositIx 50000000],
         ConsoleError ''Deposit failed:'' (Error ''User rejected the request''),
         ShowToast error (Text ''User rejected the request'')])"
    using p v by (simp add: example_deposit_rejected)
  from C7_failed_submission_is_not_retried[where parseFloat = example_parseFloat and s = ?s
      and rnd = "\<lambda>x. x" and c = rejecting_rpc and program = True and wlt = example_wallet
      and e = "Error ''User rejected the request''"
      and w = "(?s\<lparr>loading := True\<rparr>, [SignAndSend [RedeemIx 500000000000]])"]
  have r: "handleRedeem (\<lambda>x. x) example_parseFloat rejecting_rpc True True (Some example_wallet) ?s
     = (?s\<lparr>loading := False\<rparr>,
        [SignAndSend [RedeemIx 500000000000],
         ConsoleError ''Redemption failed:'' (Error ''User rejected the request''),
         ShowToast error (Text ''User rejected the request'')])"
    using p v by (simp add: example_redeem_rejected)
  show ?thesis
    using d r by (simp add: example_deposit_rejected example_redeem_rejected)
qed

text \<open>
  C8. The effect hook of a connected wallet calls \<open>fetchZcBalance()\<close> and \<open>fetchVaultData()\<close>
  at once, the latter with the defaults \<open>retryCount = 0\<close>, \<open>maxRetries = 3\<close>. When the
  \<open>try\<close> body of \<open>handleDeposit\<close> or \<open>handleRedeem\<close> completes, that is the transaction was
  sent and confirmed, the handler's effects are the submission, the success toast and one
  timer of 8000 ms whose callback calls \<open>fetchVaultData()\<close> and \<open>fetchZcBalance()\<close>.
\<close>

theorem C8_refresh_at_once_on_connect_and_8000_ms_after_confirmation:
  "wallet_effect (Some wlt) = [FetchZcBalance, FetchVaultData 0 3]
   \<and> (\<not> falsy_number (parseFloat (amount s)) \<and> \<not> number_le (parseFloat (amount s)) 0
      \<and> handleDeposit_try rnd c program wlt (parseFloat (amount s)) (s, []) = (Inr u, w) \<longrightarrow>
        (\<exists>tx. snd (handleDeposit rnd parseFloat c program True (Some wlt) s)
           = [SignAndSend tx, ShowToast success (Staked (parseFloat (amount s))),
              SetTimeout [FetchVaultData 0 3, FetchZcBalance, SetPostTransactionRefreshing False] 8000])
        \<and> timer_delays (snd (handleDeposit rnd parseFloat c program True (Some wlt) s)) = [8000])
   \<and> (valid_percentage (parseFloat (redeemPercent s))
      \<and> handleRedeem_try rnd c program wlt (parseFloat (redeemPercent s)) (s, []) = (Inr u, w) \<longrightarrow>
        (\<exists>tx. snd (handleRedeem rnd parseFloat c program True (Some wlt) s)
           = [SignAndSend tx, ShowToast success (Redeemed (parseFloat (redeemPercent s))),
              SetTimeout [FetchVaultData 0 3, FetchZcBalance, SetPostTransactionRefreshing False] 8000])
        \<and> timer_delays (snd (handleRedeem rnd parseFloat c program True (Some wlt) s)) = [8000])"
proof (intro conjI impI)
  show "wallet_effect (Some wlt) = [FetchZcBalance, FetchVaultData 0 3]"
    by (simp add: wallet_effect_def)
next
  assume a: "\<not> falsy_number (parseFloat (amount s)) \<and> \<not> number_le (parseFloat (amount s)) 0
      \<and> handleDeposit_try rnd c program wlt (parseFloat (amount s)) (s, []) = (Inr u, w)"
  then have t: "handleDeposit_try rnd c program wlt (parseFloat (amount s)) (s, []) = (Inr u, w)" by simp
  from handleDeposit_try_Inr[OF t] obtain tx where
    w: "w = (s\<lparr>loading := True, amount := [], postTransactionRefreshing := True\<rparr>,
          [SignAndSend tx, ShowToast success (Staked (parseFloat (amount s))),
           SetTimeout [FetchVaultData 0 3, FetchZcBalance, SetPostTransactionRefreshing False] 8000])"
    by blast
  have r: "snd (handleDeposit rnd parseFloat c program True (Some wlt) s)
           = [SignAndSend tx, ShowToast success (Staked (parseFloat (amount s))),
              SetTimeout [FetchVaultData 0 3, FetchZcBalance, SetPostTransactionRefreshing False] 8000]"
    using a by (simp add: handleDeposit_def Let_def t w upd_def)
  then show "\<exists>tx. snd (handleDeposit rnd parseFloat c program True (Some wlt) s)
           = [SignAndSend tx, ShowToast success (Staked (parseFloat (amount s))),
              SetTimeout [FetchVaultData 0 3, FetchZcBalance, SetPostTransactionRefreshing False] 8000]"
    by blast
  show "timer_delays (snd (handleDeposit rnd parseFloat c program True (Some wlt) s)) = [8000]"
    by (simp add: r)
next
  assume a: "valid_percentage (parseFloat (redeemPercent s))
      \<and> handleRedeem_try rnd c program wlt (parseFloat (redeemPercent s)) (s, []) = (Inr u, w)"
  then have t: "handleRedeem_try rnd c program wlt (parseFloat (redeemPercent s)) (s, []) = (Inr u, w)" by simp
  from handleRedeem_try_Inr[OF t] obtain tx where
    w: "w = (s\<lparr>loading := True, redeemPercent := [], postTransactionRefreshing := True\<rparr>,
          [SignAndSend tx, ShowToast success (Redeemed (parseFloat (redeemPercent s))),
           SetTimeout [FetchVaultData 0 3, FetchZcBalance, SetPostTransactionRefreshing False] 8000])"
    by blast
  have r: "snd (handleRedeem rnd parseFloat c program True (Some wlt) s)
           = [SignAndSend tx, ShowToast success (Redeemed (parseFloat (redeemPercent s))),
              SetTimeout [FetchVaultData 0 3, FetchZcBalance, SetPostTransactionRefreshing False] 8000]"
    using a by (simp add: handleRedeem_def Let_def t w upd_def)
  then show "\<exists>tx. snd (handleRedeem rnd parseFloat c program True (Some wlt) s)
           = [SignAndSend tx, ShowToast success (Redeemed (parseFloat (redeemPercent s))),
              SetTimeout [FetchVaultData 0 3, FetchZcBalance, SetPostTransactionRefreshing False] 8000]"
    by blast
  show "timer_delays (snd (handleRedeem rnd parseFloat c program True (Some wlt) s)) = [8000]"
    by (simp add: r)
qed

lemma example_deposit_confirmed:
  "handleDeposit_try (\<lambda>x. x) example_rpc True example_wallet (Num 50) (s, [])
     = (Inr (), (s\<lparr>loading := True, amount := [], postTransactionRefreshing := True\<rparr>,
          [SignAndSend [DepositIx 50000000], ShowToast success (Staked (Num 50)),
           SetTimeout [FetchVaultData 0 3, FetchZcBalance, SetPostTransactionRefreshing False] 8000]))"
  by (simp add: handleDeposit_try_def Let_def example_rpc_def await_def submit_def
      new_Transaction_def schedule_refresh_def upd_def emit_def)

lemma example_redeem_confirmed:
  "handleRedeem_try (\<lambda>x. x) example_rpc True example_wallet (Num 50) (s, [])
     = (Inr (), (s\<lparr>loading := True, redeemPercent := [], postTransactionRefreshing := True\<rparr>,
          [SignAndSend [RedeemIx 500000000000], ShowToast success (Redeemed (Num 50)),
           SetTimeout [FetchVaultData 0 3, FetchZcBalance, SetPostTransactionRefreshing False] 8000]))"
  by (simp add: handleRedeem_try_def Let_def example_rpc_def await_def submit_def
      new_Transaction_def schedule_refresh_def upd_def emit_def sharesToRedeem_def BigInt_div_def)

text \<open>The theorem for a confirmed stake and a confirmed redemption of 50.\<close>

theorem C8_witness:
  "wallet_effect (Some example_wallet) = [FetchZcBalance, FetchVaultData 0 3]
   \<and> fst (handleDeposit_try (\<lambda>x. x) example_rpc True example_wallet (Num 50)
        (initial_state\<lparr>amount := ''50'', redeemPercent := ''50''\<rparr>, [])) = Inr ()
   \<and> timer_delays (snd (handleDeposit (\<lambda>x. x) example_parseFloat example_rpc True True (Some example_wallet)
        (initial_state\<lparr>amount := ''50'', redeemPercent := ''50''\<rparr>))) = [8000]
   \<and> fst (handleRedeem_try (\<lambda>x. x) example_rpc True example_wallet (Num 50)
        (initial_state\<lparr>amount := ''50'', redeemPercent := ''50''\<rparr>, [])) = Inr ()
   \<and> timer_delays (snd (handleRedeem (\<lambda>x. x) example_parseFloat example_rpc True True (Some example_wallet)
        (initial_state\<lparr>amount := ''50'', redeemPercent := ''50''\<rparr>))) = [8000]"
proof -
  let ?s = "initial_state\<lparr>amount := ''50'', redeemPercent := ''50''\<rparr>"
  have p: "example_parseFloat (amount ?s) = Num 50" "example_parseFloat (redeemPercent ?s) = Num 50"
    by (simp_all add: example_parseFloat_def)
  have v: "valid_percentage (Num 50)" "\<not> falsy_number (Num 50)" "\<not> number_le (Num 50) 0"
    by (simp_all add: valid_percentage_def)
  from C8_refresh_at_once_on_connect_and_8000_ms_after_confirmation[where parseFloat = example_parseFloat
      and s = ?s and rnd = "\<lambda>x. x" and c = example_rpc and program = True and wlt = example_wallet
      and u = "()"
      and w = "snd (handleDeposit_try (\<lambda>x. x) example_rpc True example_wallet (Num 50) (?s, []))"]
  have d: "timer_delays (snd (handleDeposit (\<lambda>x. x) example_parseFloat example_rpc True True
        (Some example_wallet) ?s)) = [8000]"
    using p v by (simp add: example_deposit_confirmed)
  from C8_refresh_at_once_on_connect_and_8000_ms_after_confirmation[where parseFloat = example_parseFloat
      and s = ?s and rnd = "\<lambda>x. x" and c = example_rpc and program = True and wlt = example_wallet
      and u = "()"
      and w = "snd (handleRedeem_try (\<lambda>x. x) example_rpc True example_wallet (Num 50) (?s, []))"]
  have r: "timer_delays (snd (handleRedeem (\<lambda>x. x) example_parseFloat example_rpc True True
        (Some example_wallet) ?s)) = [8000]"
    using p v by (simp add: example_redeem_confirmed)
  show ?thesis
    using d r by (simp add: example_deposit_confirmed example_redeem_confirmed wallet_effect_def)
qed

section \<open>The vault-state flag and the redeem button\<close>

lemma flag_fetch_totalAssets:
  "withdrawalsEnabled (fst (fetch_totalAssets rnd c w)) = withdrawalsEnabled (fst w)"
  by (simp add: fetch_totalAssets_def upd_def emit_def split: sum.splits)

lemma flag_fetch_exchangeRate:
  "withdrawalsEnabled (fst (fetch_exchangeRate rnd c w)) = withdrawalsEnabled (fst w)"
  by (simp add: fetch_exchangeRate_def upd_def emit_def split: sum.splits)

lemma flag_fetch_userShare:
  "withdrawalsEnabled (fst (snd (fetch_userShare rnd c wlt w))) = withdrawalsEnabled (fst w)"
  by (simp add: fetch_userShare_def upd_def Let_def split: sum.splits)

lemma flag_fetchVaultData:
  "withdrawalsEnabled (fst (fetchVaultData rnd c True (Some wlt) retryCount maxRetries s))
     = withdrawalsEnabled (fst (fetch_vaultState c (s\<lparr>refreshing := True\<rparr>, [])))"
proof -
  let ?w3 = "fetch_exchangeRate rnd c (fetch_totalAssets rnd c (fetch_vaultState c (s\<lparr>refreshing := True\<rparr>, [])))"
  obtain res w4 where r: "fetch_userShare rnd c wlt ?w3 = (res, w4)"
    by (cases "fetch_userShare rnd c wlt ?w3") auto
  have "withdrawalsEnabled (fst w4) = withdrawalsEnabled (fst ?w3)"
    using flag_fetch_userShare[of rnd c wlt ?w3] r by simp
  then show ?thesis
    by (cases res)
       (simp_all add: fetchVaultData_def Let_def r upd_def emit_def flag_fetch_totalAssets
          flag_fetch_exchangeRate)
qed

text \<open>
  C4. When the vault-state account is missing, its read throws, its decoding throws or the
  decoded \<open>operationsEnabled\<close> is false, \<open>fetchVaultData\<close> stores
  \<open>withdrawalsEnabled = false\<close>. In every state \<open>t\<close> with that flag, whatever its share
  balance, percentage text and mode: the button in redeem mode is disabled, no click on
  the button reaches \<open>handleRedeem\<close>, and the percentage input is disabled.
\<close>

theorem C4_redeem_disabled_when_operations_not_enabled:
  assumes "getAccountInfo c vaultState = Inr None
         \<or> (\<exists>e. getAccountInfo c vaultState = Inl e)
         \<or> (\<exists>data. getAccountInfo c vaultState = Inr (Some data)
               \<and> (decode_operationsEnabled c data = Inr False
                    \<or> (\<exists>e. decode_operationsEnabled c data = Inl e)))"
      and "withdrawalsEnabled t
             = withdrawalsEnabled (fst (fetchVaultData rnd c True (Some wlt) retryCount maxRetries s))"
  shows "\<not> withdrawalsEnabled t
       \<and> (modalMode t = redeem \<longrightarrow> button_disabled parseFloat (Some wlt) t)
       \<and> click parseFloat wallet t \<noteq> Some HandleRedeem
       \<and> redeemPercent_disabled wallet t"
proof -
  have "\<not> withdrawalsEnabled (fst (fetch_vaultState c (s\<lparr>refreshing := True\<rparr>, [])))"
    using assms(1) by (auto simp: fetch_vaultState_def upd_def emit_def)
  then have off: "\<not> withdrawalsEnabled t"
    using assms(2) by (simp add: flag_fetchVaultData)
  have "click parseFloat wallet t \<noteq> Some HandleRedeem"
    using off
    by (cases wallet) (auto simp: click_def button_disabled_def button_onClick_def)
  with off show ?thesis
    by (simp add: button_disabled_def redeemPercent_disabled_def)
qed

text \<open>The theorem for a missing vault-state account and a user who holds 1,000,000 shares
  and has typed 100 in redeem mode.\<close>

theorem C4_witness:
  "getAccountInfo no_vault_state_rpc vaultState = Inr None
   \<and> userShareBalance ((fst (fetchVaultData (\<lambda>x. x) no_vault_state_rpc True (Some example_wallet) 0 3
        initial_state))\<lparr>modalMode := redeem, redeemPercent := ''100''\<rparr>) = 1000000
   \<and> button_disabled example_parseFloat (Some example_wallet)
       ((fst (fetchVaultData (\<lambda>x. x) no_vault_state_rpc True (Some example_wallet) 0 3
        initial_state))\<lparr>modalMode := redeem, redeemPercent := ''100''\<rparr>)
   \<and> click example_parseFloat (Some example_wallet)
       ((fst (fetchVaultData (\<lambda>x. x) no_vault_state_rpc True (Some example_wallet) 0 3
        initial_state))\<lparr>modalMode := redeem, redeemPercent := ''100''\<rparr>) = None"
proof -
  let ?t = "(fst (fetchVaultData (\<lambda>x. x) no_vault_state_rpc True (Some example_wallet) 0 3
        initial_state))\<lparr>modalMode := redeem, redeemPercent := ''100''\<rparr>"
  have g: "getAccountInfo no_vault_state_rpc vaultState = Inr None"
    by (simp add: no_vault_state_rpc_def)
  have a: "getAssociatedTokenAddress no_vault_state_rpc shareMint example_wallet = Inr (Address ''userShareAccount'')"
    by (simp add: no_vault_state_rpc_def example_rpc_def)
  have b: "getAccount no_vault_state_rpc (Address ''userShareAccount'') = Inr 1000000000000"
    by (simp add: no_vault_state_rpc_def example_rpc_def)
  have p: "previewRedeem no_vault_state_rpc 1000000000000 = Inr 1000000500000"
    by (simp add: no_vault_state_rpc_def example_rpc_def pro_rata_def)
  have bal: "userShareBalance ?t = 1000000"
    by (simp add: fetchVaultData_completes[OF a b p] upd_def example_toUi)
  from C4_redeem_disabled_when_operations_not_enabled[where c = no_vault_state_rpc and t = ?t
      and rnd = "\<lambda>x. x" and wlt = example_wallet and retryCount = 0 and maxRetries = 3
      and s = initial_state and parseFloat = example_parseFloat and wallet = "Some example_wallet"]
  have "button_disabled example_parseFloat (Some example_wallet) ?t" using g by simp
  then show ?thesis using g bal by (simp add: click_def)
qed

section \<open>The failures of the market-data route\<close>

lemma property_lacks:
  "lacks body name \<Longrightarrow> body \<noteq> JNull \<Longrightarrow> property body name = Inr None"
  by (cases body) (auto simp: map_of_eq_None_iff)

lemma NextResponse_json_Inr:
  "NextResponse_json body st = Inr response \<Longrightarrow> res_status response = st \<and> res_body response = body"
  by (auto simp: NextResponse_json_def split: if_splits)

lemma NextResponse_json_accepts:
  "200 \<le> st \<Longrightarrow> st \<le> 599 \<Longrightarrow> st \<noteq> 204 \<Longrightarrow> st \<noteq> 205 \<Longrightarrow> st \<noteq> 304 \<Longrightarrow>
     NextResponse_json body st = Inr \<lparr> res_status = st, res_body = body \<rparr>"
  by (simp add: NextResponse_json_def)

lemma POST_try_status:
  "POST_try env = Inr response \<Longrightarrow> res_status response \<noteq> 200 \<Longrightarrow>
     res_body response = failure ''Token address is required''
   \<or> res_body response = failure ''Failed to fetch market data''"
  by (auto simp: POST_try_def andThen_def Let_def
      split: sum.splits if_splits option.splits dest!: NextResponse_json_Inr)

lemma POST_catch:
  "POST_try env = Inl e \<Longrightarrow>
     POST env = Inr \<lparr> res_status = 500, res_body = failure ''Failed to fetch market data'' \<rparr>"
  by (simp add: POST_def NextResponse_json_def)

text \<open>
  C10 (amended). For a request whose JSON body is not \<open>null\<close> and lacks \<open>tokenAddress\<close>, the
  handler answers 400 with \<open>{ success: false, data: null, error: 'Token address is required' }\<close>.
  For an upstream response that is not ok (reached with a truthy token address and without
  the mock) and whose status the \<open>Response\<close> constructor accepts with a body, that is a status
  from 300 to 599 other than 304, it answers the upstream status with
  \<open>{ success: false, data: null, error: 'Failed to fetch market data' }\<close>; for any other
  status of a response that is not ok (304, below 200, above 599) the constructor throws and
  the handler answers 500 with that same body. The handler always answers, and every answer
  whose status is not 200 has one of these two bodies, so no failure carries a data object.
\<close>

theorem C10_missing_token_address_and_upstream_failure:
  "(request_json env = Inr body \<and> body \<noteq> JNull \<and> lacks body ''tokenAddress'' \<longrightarrow>
      POST env = Inr \<lparr> res_status = 400, res_body = JObject [(''success'', JBool False),
                      (''data'', JNull), (''error'', JString ''Token address is required'')] \<rparr>)
   \<and> (request_json env = Inr body \<and> property body ''tokenAddress'' = Inr tokenAddress
       \<and> truthy tokenAddress \<and> \<not> shouldUseMockBirdeye env
       \<and> fetch env tokenAddress = Inr response \<and> \<not> ok response \<longrightarrow>
      POST env = Inr \<lparr> res_status =
                        (if 300 \<le> status response \<and> status response \<le> 599 \<and> status response \<noteq> 304
                         then status response else 500),
                      res_body = JObject [(''success'', JBool False),
                      (''data'', JNull), (''error'', JString ''Failed to fetch market data'')] \<rparr>)
   \<and> (\<exists>answer. POST env = Inr answer
        \<and> (res_status answer \<noteq> 200 \<longrightarrow>
              res_body answer = failure ''Token address is required''
            \<or> res_body answer = failure ''Failed to fetch market data''))"
proof (intro conjI impI)
  assume a: "request_json env = Inr body \<and> body \<noteq> JNull \<and> lacks body ''tokenAddress''"
  then have "property body ''tokenAddress'' = Inr None"
    by (simp add: property_lacks)
  with a show "POST env = Inr \<lparr> res_status = 400, res_body = JObject [(''success'', JBool False),
                      (''data'', JNull), (''error'', JString ''Token address is required'')] \<rparr>"
    by (simp add: POST_def POST_try_def andThen_def NextResponse_json_def failure_def)
next
  assume a: "request_json env = Inr body \<and> property body ''tokenAddress'' = Inr tokenAddress
       \<and> truthy tokenAddress \<and> \<not> shouldUseMockBirdeye env
       \<and> fetch env tokenAddress = Inr response \<and> \<not> ok response"
  then have t: "POST_try env = NextResponse_json (failure ''Failed to fetch market data'') (status response)"
    by (simp add: POST_try_def andThen_def)
  show "POST env = Inr \<lparr> res_status =
                        (if 300 \<le> status response \<and> status response \<le> 599 \<and> status response \<noteq> 304
                         then status response else 500),
                      res_body = JObject [(''success'', JBool False),
                      (''data'', JNull), (''error'', JString ''Failed to fetch market data'')] \<rparr>"
  proof (cases "300 \<le> status response \<and> status response \<le> 599 \<and> status response \<noteq> 304")
    case True
    then show ?thesis
      by (simp add: POST_def t NextResponse_json_def failure_def)
  next
    case False
    with a have "status response < 200 \<or> 599 < status response \<or> status response = 304"
      by (auto simp: ok_def)
    then have "\<exists>e. POST_try env = Inl e"
      by (auto simp: t NextResponse_json_def)
    then show ?thesis
      using False POST_catch by (auto simp: failure_def)
  qed
next
  show "\<exists>answer. POST env = Inr answer
        \<and> (res_status answer \<noteq> 200 \<longrightarrow>
              res_body answer = failure ''Token address is required''
            \<or> res_body answer = failure ''Failed to fetch market data'')"
  proof (cases "POST_try env")
    case (Inl e)
    then show ?thesis using POST_catch[OF Inl] by simp
  next
    case (Inr response)
    then have "POST env = Inr response" by (simp add: POST_def)
    with POST_try_status[OF Inr] show ?thesis by auto
  qed
qed

text \<open>The theorem at a body without the member, and at an upstream answer of 429.\<close>

theorem C10_witness:
  "POST (example_route (JObject [(''address'', JString ''GVvP'')]) 429)
     = Inr \<lparr> res_status = 400, res_body = JObject [(''success'', JBool False), (''data'', JNull),
                      (''error'', JString ''Token address is required'')] \<rparr>
   \<and> POST (example_route (JObject [(''tokenAddress'', JString ''GVvP'')]) 429)
     = Inr \<lparr> res_status = 429, res_body = JObject [(''success'', JBool False), (''data'', JNull),
                      (''error'', JString ''Failed to fetch market data'')] \<rparr>"
proof -
  have 1: "POST (example_route (JObject [(''address'', JString ''GVvP'')]) 429)
     = Inr \<lparr> res_status = 400, res_body = JObject [(''success'', JBool False), (''data'', JNull),
                      (''error'', JString ''Token address is required'')] \<rparr>"
    using C10_missing_token_address_and_upstream_failure[where
        env = "example_route (JObject [(''address'', JString ''GVvP'')]) 429"
        and body = "JObject [(''address'', JString ''GVvP'')]"]
    by (simp add: example_route_def)
  have 2: "POST (example_route (JObject [(''tokenAddress'', JString ''GVvP'')]) 429)
     = Inr \<lparr> res_status = 429, res_body = JObject [(''success'', JBool False), (''data'', JNull),
                      (''error'', JString ''Failed to fetch market data'')] \<rparr>"
    using C10_missing_token_address_and_upstream_failure[where
        env = "example_route (JObject [(''tokenAddress'', JString ''GVvP'')]) 429"
        and body = "JObject [(''tokenAddress'', JString ''GVvP'')]"
        and tokenAddress = "Some (JString ''GVvP'')"
        and response = "\<lparr> status = 429, json_of = Inr (JObject [(''data'', JObject [(''price'', JNumber 2)])]) \<rparr>"]
    by (simp add: example_route_def ok_def)
  from 1 2 show ?thesis by simp
qed

text \<open>
  C10 as stated answers 400 to every JSON body that lacks \<open>tokenAddress\<close>, and the upstream
  status to every upstream response that is not ok. The JSON body \<open>null\<close> lacks the member,
  reading \<open>body.tokenAddress\<close> throws a TypeError, and the \<open>catch\<close> answers 500. An upstream
  answer of 304 is not ok, \<open>NextResponse.json\<close> throws for a body with that status, and the
  \<open>catch\<close> answers 500, not 304.
\<close>

theorem C10_counterexample:
  "lacks JNull ''tokenAddress''
   \<and> POST (example_route JNull 429)
     = Inr \<lparr> res_status = 500, res_body = JObject [(''success'', JBool False), (''data'', JNull),
                      (''error'', JString ''Failed to fetch market data'')] \<rparr>
   \<and> \<not> ok \<lparr> status = 304, json_of = Inr (JObject [(''data'', JObject [(''price'', JNumber 2)])]) \<rparr>
   \<and> POST (example_route (JObject [(''tokenAddress'', JString ''GVvP'')]) 304)
     = Inr \<lparr> res_status = 500, res_body = JObject [(''success'', JBool False), (''data'', JNull),
                      (''error'', JString ''Failed to fetch market data'')] \<rparr>"
  by (simp add: POST_def POST_try_def andThen_def example_route_def NextResponse_json_def failure_def
      ok_def)

end
